theory Spec2Isabelle
  imports Main "HOL-Library.Sublist" "HOL-Library.Word"
begin

section \<open>Go library functions used by the credential resolver\<close>

subsection \<open>Strings\<close>

text \<open>
  A Go string is a sequence of bytes, here a \<^typ>\<open>string\<close>. \<open>strings.TrimSpace\<close> removes the
  leading and the trailing white space of a string, where white space is what
  \<open>unicode.IsSpace\<close> accepts: the six ASCII characters tab, line feed, vertical tab, form feed,
  carriage return and space, and the code points U+0085, U+00A0, U+1680, U+2000 to U+200A,
  U+2028, U+2029, U+202F, U+205F and U+3000. \<open>spaceRunes\<close> lists their UTF-8 encodings.
  Decoding a rune at the start of a string yields a white-space rune exactly when one of these
  encodings is a prefix of the string, and decoding the last rune yields one exactly when one
  of them is a suffix (each encoding is a start byte followed by continuation bytes).
\<close>

definition spaceRunes :: "string list" where
  "spaceRunes =
     [ [CHR 0x09], [CHR 0x0A], [CHR 0x0B], [CHR 0x0C], [CHR 0x0D], [CHR 0x20],
      [CHR 0xC2, CHR 0x85], [CHR 0xC2, CHR 0xA0],
      [CHR 0xE1, CHR 0x9A, CHR 0x80],
      [CHR 0xE2, CHR 0x80, CHR 0x80], [CHR 0xE2, CHR 0x80, CHR 0x81],
      [CHR 0xE2, CHR 0x80, CHR 0x82], [CHR 0xE2, CHR 0x80, CHR 0x83],
      [CHR 0xE2, CHR 0x80, CHR 0x84], [CHR 0xE2, CHR 0x80, CHR 0x85],
      [CHR 0xE2, CHR 0x80, CHR 0x86], [CHR 0xE2, CHR 0x80, CHR 0x87],
      [CHR 0xE2, CHR 0x80, CHR 0x88], [CHR 0xE2, CHR 0x80, CHR 0x89],
      [CHR 0xE2, CHR 0x80, CHR 0x8A],
      [CHR 0xE2, CHR 0x80, CHR 0xA8], [CHR 0xE2, CHR 0x80, CHR 0xA9],
      [CHR 0xE2, CHR 0x80, CHR 0xAF],
      [CHR 0xE2, CHR 0x81, CHR 0x9F],
      [CHR 0xE3, CHR 0x80, CHR 0x80]]"

text \<open>Strip, as long as there is one, a leading occurrence of one of the byte sequences.\<close>

function trimPrefixes :: "string list \<Rightarrow> string \<Rightarrow> string" where
  "trimPrefixes encs s =
     (case find (\<lambda>e. e \<noteq> [] \<and> prefix e s) encs of
        None \<Rightarrow> s
      | Some e \<Rightarrow> trimPrefixes encs (drop (length e) s))"
  by pat_completeness auto
termination
  apply (relation "measure (\<lambda>(encs, s). length s)")
   apply (auto simp: find_Some_iff prefix_def)
  done

declare trimPrefixes.simps [simp del]

text \<open>
  \<open>strings.TrimSpace\<close>: the leading white space goes first, then the trailing white space
  (the same stripping on the reversed string, with the encodings reversed).
\<close>

definition TrimSpace :: "string \<Rightarrow> string" where
  "TrimSpace s = rev (trimPrefixes (map rev spaceRunes) (rev (trimPrefixes spaceRunes s)))"

definition hasLeadingSpace :: "string \<Rightarrow> bool" where
  "hasLeadingSpace s = list_ex (\<lambda>e. prefix e s) spaceRunes"

definition hasTrailingSpace :: "string \<Rightarrow> bool" where
  "hasTrailingSpace s = list_ex (\<lambda>e. suffix e s) spaceRunes"

text \<open>The invariant of a credential: not empty, no white space at either end.\<close>

definition credentialOK :: "string \<Rightarrow> bool" where
  "credentialOK c = (c \<noteq> [] \<and> \<not> hasLeadingSpace c \<and> \<not> hasTrailingSpace c)"

text \<open>\<open>strings.Join(elems, sep)\<close>.\<close>

fun Join :: "string list \<Rightarrow> string \<Rightarrow> string" where
  "Join [] sep = []"
| "Join [x] sep = x"
| "Join (x # y # ys) sep = x @ sep @ Join (y # ys) sep"

text \<open>
  \<open>filepath.Join\<close> and \<open>filepath.Dir\<close> on slash-separated paths. Paths are keys of the file
  system only; the normalisation that \<open>filepath.Clean\<close> adds is not modelled.
\<close>

definition filepathJoin :: "string list \<Rightarrow> string" where
  "filepathJoin elems = Join (filter (\<lambda>e. e \<noteq> []) elems) ''/''"

definition filepathDir :: "string \<Rightarrow> string" where
  "filepathDir path =
     (case rev (dropWhile (\<lambda>c. c \<noteq> CHR ''/'') (rev path)) of
        [] \<Rightarrow> ''.''
      | d \<Rightarrow> (if butlast d = [] then ''/'' else butlast d))"

subsection \<open>Errors\<close>

text \<open>
  The error values of the program. \<open>LibError\<close> stands for an error made by a library (\<open>os\<close>,
  \<open>os/exec\<close>, \<open>net/http\<close>, \<open>encoding/json\<close>, \<open>context\<close>), known by its message; the others are
  the errors that \<open>main.go\<close> creates with \<open>errors.New\<close> and \<open>fmt.Errorf\<close>.
\<close>

datatype error =
    LibError string
  | EmptyGhToken
  | NoTokenFound
  | DeviceCodeRequestFailed string
  | DeviceCodeExpiredTryAgain
  | AuthorizationDeclined
  | DeviceCodeExpired
  | AccessDeniedByUser
  | OAuthError string

text \<open>The message of an error (Go's \<open>err.Error()\<close>).\<close>

fun errorString :: "error \<Rightarrow> string" where
  "errorString (LibError m) = m"
| "errorString EmptyGhToken = ''empty gh token''"
| "errorString NoTokenFound =
     ''no token found. Set GITHUB_TOKEN, or install GitHub CLI (gh) to login via web, or set GITHUB_OAUTH_CLIENT_ID to use device OAuth. See https://docs.github.com/apps/oauth-apps/building-oauth-apps/authorizing-oauth-apps for details.''"
| "errorString (DeviceCodeRequestFailed body) = ''device code request failed: '' @ body"
| "errorString DeviceCodeExpiredTryAgain = ''device code expired; please try again''"
| "errorString AuthorizationDeclined = ''authorization declined''"
| "errorString DeviceCodeExpired = ''device code expired''"
| "errorString AccessDeniedByUser = ''access denied by user''"
| "errorString (OAuthError code) = ''oauth error: '' @ code"

text \<open>
  A text gives remediation guidance for every configuration option when it names the
  environment credential, the companion CLI and the OAuth client identifier.
\<close>

definition namesEveryRemedy :: "string \<Rightarrow> bool" where
  "namesEveryRemedy msg =
     (sublist ''GITHUB_TOKEN'' msg \<and> sublist ''GitHub CLI (gh)'' msg \<and>
      sublist ''GITHUB_OAUTH_CLIENT_ID'' msg)"

subsection \<open>Durations\<close>

text \<open>
  \<open>time.Duration\<close> is a signed 64-bit count of nanoseconds, and \<open>int\<close> is a signed 64-bit
  integer on the 64-bit targets of Go: both are \<^typ>\<open>64 word\<close>, read with \<^const>\<open>sint\<close>;
  multiplication wraps around.
\<close>

type_synonym Duration = "64 word"

definition Second :: Duration where
  "Second = 1000000000"

section \<open>The world outside the program\<close>

text \<open>The JSON bodies of the two endpoints, decoded into the structs of \<open>main.go\<close>.
  A field that the body leaves out has its zero value: the empty string, or 0.\<close>

record deviceCodeResponse =
  DeviceCode :: string
  UserCode :: string
  VerificationURI :: string
  VerificationURIComplete :: string
  ExpiresIn :: "64 word"
  Interval :: "64 word"

record deviceTokenResponse =
  AccessToken :: string
  TokenType :: string
  Scope :: string
  Error :: string
  ErrorDesc :: string

text \<open>An HTTP response: its status, its raw body, and what \<open>json.NewDecoder(resp.Body).Decode\<close>
  makes of that body (an error when the body is not JSON of the expected shape).\<close>

record 'a response =
  StatusCode :: int
  Body :: string
  Decode :: "error + 'a"

text \<open>The three cases of the \<open>select\<close> statement of the polling loop.\<close>

datatype selectCase = CtxDone error | Timeout | TickerC

text \<open>
  Everything the resolver reads from outside: the environment, the outcome of each call of
  the operating system, the companion CLI, the two endpoints, and the order in which the
  runtime delivers the channel events of the polling loop. \<open>ghAuthToken n\<close> is the outcome of
  the run of \<open>gh auth token\<close> that follows \<open>n\<close> earlier runs, \<open>tokenEndpoint n\<close> the outcome of
  the token request that follows \<open>n\<close> earlier ones (\<open>Inl\<close>: the request could not be made or
  sent).
\<close>

record world =
  Getenv :: "string \<Rightarrow> string"
  UserConfigDir :: "error + string"
  ReadFileErr :: "string \<Rightarrow> error option"
  MkdirAllErr :: "string \<Rightarrow> error option"
  WriteFileErr :: "string \<Rightarrow> error option"
  LookPath :: "string \<Rightarrow> error option"
  ghAuthToken :: "nat \<Rightarrow> error + string"
  ghAuthLogin :: "error option"
  deviceCodeEndpoint :: "error + deviceCodeResponse response"
  tokenEndpoint :: "nat \<Rightarrow> error + deviceTokenResponse response"
  selects :: "selectCase list"

text \<open>What the program does to the outside, in order.\<close>

datatype event =
    EvReadFile string
  | EvMkdirAll string
  | EvWriteFile string string
  | EvLookPath string
  | EvExec "string list"
  | EvHTTPPost string "(string \<times> string) list"
  | EvPrint string
  | EvNewTicker Duration
  | EvAfter Duration

fun isOutput :: "event \<Rightarrow> bool" where
  "isOutput (EvPrint text) = True"
| "isOutput ev = False"

fun isTicker :: "event \<Rightarrow> bool" where
  "isTicker (EvNewTicker d) = True"
| "isTicker ev = False"

text \<open>
  The state that a run changes: the files, how often \<open>gh auth token\<close> has run, how many
  token requests have been sent, and the trace of effects.
\<close>

record state =
  files :: "string \<rightharpoonup> string"
  ghRuns :: nat
  polls :: nat
  trace :: "event list"

definition emit :: "event \<Rightarrow> state \<Rightarrow> state" where
  "emit ev s = s\<lparr>trace := trace s @ [ev]\<rparr>"

definition initState :: "(string \<rightharpoonup> string) \<Rightarrow> state" where
  "initState fs = \<lparr>files = fs, ghRuns = 0, polls = 0, trace = []\<rparr>"

text \<open>What a call does: it returns, it panics, or it has not returned when the events of the
  world are used up (the \<open>select\<close> blocks).\<close>

datatype 'a outcome = Returns 'a | Panics string | Blocks

subsection \<open>Calls of the operating system\<close>

definition osReadFile :: "world \<Rightarrow> string \<Rightarrow> state \<Rightarrow> (error + string) \<times> state" where
  "osReadFile w path s =
     (case ReadFileErr w path of
        Some err \<Rightarrow> (Inl err, emit (EvReadFile path) s)
      | None \<Rightarrow>
          (case files s path of
             None \<Rightarrow> (Inl (LibError ''no such file or directory''), emit (EvReadFile path) s)
           | Some data \<Rightarrow> (Inr data, emit (EvReadFile path) s)))"

definition osMkdirAll :: "world \<Rightarrow> string \<Rightarrow> state \<Rightarrow> error option \<times> state" where
  "osMkdirAll w dir s = (MkdirAllErr w dir, emit (EvMkdirAll dir) s)"

text \<open>\<open>os.WriteFile\<close> truncates the file and writes the data; a write that fails is taken to
  leave the file as it was.\<close>

definition osWriteFile :: "world \<Rightarrow> string \<Rightarrow> string \<Rightarrow> state \<Rightarrow> error option \<times> state" where
  "osWriteFile w path data s =
     (case WriteFileErr w path of
        Some err \<Rightarrow> (Some err, emit (EvWriteFile path data) s)
      | None \<Rightarrow> (None, emit (EvWriteFile path data) (s\<lparr>files := (files s)(path \<mapsto> data)\<rparr>)))"

definition execLookPath :: "world \<Rightarrow> string \<Rightarrow> state \<Rightarrow> error option \<times> state" where
  "execLookPath w file s = (LookPath w file, emit (EvLookPath file) s)"

section \<open>The token store\<close>

definition configTokenPath :: "world \<Rightarrow> string \<times> error option" where
  "configTokenPath w =
     (case UserConfigDir w of
        Inl err \<Rightarrow> ([], Some err)
      | Inr dir \<Rightarrow> (filepathJoin [dir, ''repoinit'', ''token''], None))"

definition readStoredToken :: "world \<Rightarrow> state \<Rightarrow> (string \<times> error option) \<times> state" where
  "readStoredToken w s =
     (case configTokenPath w of
        (path, Some err) \<Rightarrow> (([], Some err), s)
      | (path, None) \<Rightarrow>
          (case osReadFile w path s of
             (Inl err, s') \<Rightarrow> (([], Some err), s')
           | (Inr data, s') \<Rightarrow> ((TrimSpace data, None), s')))"

definition writeStoredToken :: "world \<Rightarrow> string \<Rightarrow> state \<Rightarrow> error option \<times> state" where
  "writeStoredToken w token s =
     (case configTokenPath w of
        (path, Some err) \<Rightarrow> (Some err, s)
      | (path, None) \<Rightarrow>
          (case osMkdirAll w (filepathDir path) s of
             (Some err, s') \<Rightarrow> (Some err, s')
           | (None, s') \<Rightarrow> osWriteFile w path (TrimSpace token @ [CHR 0x0A]) s'))"

section \<open>The companion CLI\<close>

definition tryGhToken :: "world \<Rightarrow> state \<Rightarrow> (string \<times> error option) \<times> state" where
  "tryGhToken w s =
     (case execLookPath w ''gh'' s of
        (Some err, s1) \<Rightarrow> (([], Some err), s1)
      | (None, s1) \<Rightarrow>
          (let s2 = emit (EvExec [''gh'', ''auth'', ''token'']) (s1\<lparr>ghRuns := Suc (ghRuns s1)\<rparr>)
           in case ghAuthToken w (ghRuns s1) of
                Inl err \<Rightarrow> (([], Some err), s2)
              | Inr out \<Rightarrow>
                  (let token = TrimSpace out
                   in if token = [] then (([], Some EmptyGhToken), s2)
                      else ((token, None), s2))))"

definition tryGhWebLogin :: "world \<Rightarrow> state \<Rightarrow> error option \<times> state" where
  "tryGhWebLogin w s =
     (case execLookPath w ''gh'' s of
        (Some err, s1) \<Rightarrow> (Some err, s1)
      | (None, s1) \<Rightarrow>
          (ghAuthLogin w,
           emit (EvExec [''gh'', ''auth'', ''login'', ''--web'', ''--scopes'', ''repo'']) s1))"

section \<open>The device flow\<close>

text \<open>
  \<open>http.NewRequestWithContext\<close> fails on a nil context, an unknown method or a URL that does
  not parse; with the constants of \<open>main.go\<close> and the context of \<open>main\<close> it does not fail. A
  request that cannot be sent, or has no response, is the \<open>Inl\<close> of the endpoint.
\<close>

definition pollDeviceToken ::
  "world \<Rightarrow> string \<Rightarrow> string \<Rightarrow> state \<Rightarrow> (string \<times> bool \<times> error option) \<times> state" where
  "pollDeviceToken w clientID deviceCode s =
     (let s' = emit (EvHTTPPost ''https://github.com/login/oauth/access_token''
                      [(''client_id'', clientID), (''device_code'', deviceCode),
                       (''grant_type'', ''urn:ietf:params:oauth:grant-type:device_code'')])
                 (s\<lparr>polls := Suc (polls s)\<rparr>)
      in case tokenEndpoint w (polls s) of
           Inl err \<Rightarrow> (([], True, Some err), s')
         | Inr resp \<Rightarrow>
             (case Decode resp of
                Inl err \<Rightarrow> (([], True, Some err), s')
              | Inr tr \<Rightarrow>
                  (if Error tr = [] then ((TrimSpace (AccessToken tr), False, None), s')
                   else if Error tr = ''authorization_pending'' then (([], True, None), s')
                   else if Error tr = ''slow_down'' then (([], True, None), s')
                   else if Error tr = ''expired_token''
                     then (([], False, Some DeviceCodeExpired), s')
                   else if Error tr = ''access_denied''
                     then (([], False, Some AccessDeniedByUser), s')
                   else (([], False, Some (OAuthError (Error tr))), s'))))"

text \<open>The loop \<open>for { select { ... } }\<close> of \<open>runDeviceFlow\<close>, over the events that the runtime
  delivers.\<close>

fun pollLoop ::
  "world \<Rightarrow> string \<Rightarrow> string \<Rightarrow> selectCase list \<Rightarrow> state \<Rightarrow>
   (string \<times> error option) outcome \<times> state" where
  "pollLoop w clientID deviceCode [] s = (Blocks, s)"
| "pollLoop w clientID deviceCode (CtxDone err # cs) s = (Returns ([], Some err), s)"
| "pollLoop w clientID deviceCode (Timeout # cs) s =
     (Returns ([], Some DeviceCodeExpiredTryAgain), s)"
| "pollLoop w clientID deviceCode (TickerC # cs) s =
     (case pollDeviceToken w clientID deviceCode s of
        ((token, cont, err), s') \<Rightarrow>
          (case err of
             Some e \<Rightarrow> (Returns ([], Some e), s')
           | None \<Rightarrow>
               if token \<noteq> [] then (Returns (token, None), s')
               else if \<not> cont then (Returns ([], Some AuthorizationDeclined), s')
               else pollLoop w clientID deviceCode cs s'))"

definition runDeviceFlow ::
  "world \<Rightarrow> string \<Rightarrow> string list \<Rightarrow> state \<Rightarrow> (string \<times> error option) outcome \<times> state" where
  "runDeviceFlow w clientID scopes s =
     (let s1 = emit (EvHTTPPost ''https://github.com/login/device/code''
                      [(''client_id'', clientID), (''scope'', Join scopes '','')]) s
      in case deviceCodeEndpoint w of
           Inl err \<Rightarrow> (Returns ([], Some err), s1)
         | Inr resp \<Rightarrow>
             if StatusCode resp < 200 \<or> StatusCode resp \<ge> 300
             then (Returns ([], Some (DeviceCodeRequestFailed (TrimSpace (Body resp)))), s1)
             else
               (case Decode resp of
                  Inl err \<Rightarrow> (Returns ([], Some err), s1)
                | Inr dc \<Rightarrow>
                    (let s2 = emit (EvPrint
                                ''To authenticate with GitHub, open this link in your browser:\<newline>'') s1;
                         s3 = (if VerificationURIComplete dc \<noteq> []
                               then emit (EvPrint (''  '' @ VerificationURIComplete dc @ ''\<newline>'')) s2
                               else emit (EvPrint (''and enter the code: '' @ UserCode dc @ ''\<newline>''))
                                      (emit (EvPrint (''  '' @ VerificationURI dc @ ''\<newline>'')) s2));
                         pollInterval = (if sint (Interval dc) \<le> 0 then 5 else Interval dc)
                     in if sint (pollInterval * Second) \<le> 0
                        then (Panics ''non-positive interval for NewTicker'', s3)
                        else pollLoop w clientID (DeviceCode dc) (selects w)
                               (emit (EvAfter (ExpiresIn dc * Second))
                                  (emit (EvNewTicker (pollInterval * Second)) s3)))))"

section \<open>The token resolver\<close>

text \<open>
  The last part of \<open>resolveGitHubToken\<close>, from the comment \<open>4) OAuth Device Flow\<close> to the
  final \<open>return\<close>: every branch of the companion-CLI step that has no token falls through to
  it.
\<close>

definition resolveByDeviceFlow ::
  "world \<Rightarrow> state \<Rightarrow> (string \<times> error option) outcome \<times> state" where
  "resolveByDeviceFlow w s =
     (let clientID = TrimSpace (Getenv w ''GITHUB_OAUTH_CLIENT_ID'')
      in if clientID \<noteq> []
         then (case runDeviceFlow w clientID [''repo''] s of
                 (Returns (token, Some err), s') \<Rightarrow> (Returns ([], Some err), s')
               | (Returns (token, None), s') \<Rightarrow>
                   if token \<noteq> []
                   then (Returns (token, None), snd (writeStoredToken w token s'))
                   else (Returns ([], Some NoTokenFound), s')
               | (Panics msg, s') \<Rightarrow> (Panics msg, s')
               | (Blocks, s') \<Rightarrow> (Blocks, s'))
         else (Returns ([], Some NoTokenFound), s))"

definition resolveGitHubToken :: "world \<Rightarrow> state \<Rightarrow> (string \<times> error option) outcome \<times> state" where
  "resolveGitHubToken w s =
     (let envToken = TrimSpace (Getenv w ''GITHUB_TOKEN'')
      in if envToken \<noteq> [] then (Returns (envToken, None), s)
         else
           (case readStoredToken w s of
              ((token, _), s1) \<Rightarrow>
                if token \<noteq> [] then (Returns (token, None), s1)
                else
                  (case tryGhToken w s1 of
                     ((token, err), s2) \<Rightarrow>
                       if err = None \<and> token \<noteq> []
                       then (Returns (token, None), snd (writeStoredToken w token s2))
                       else
                         (case tryGhWebLogin w s2 of
                            (Some _, s3) \<Rightarrow> resolveByDeviceFlow w s3
                          | (None, s3) \<Rightarrow>
                              (case tryGhToken w s3 of
                                 ((token, err), s4) \<Rightarrow>
                                   if err = None \<and> token \<noteq> []
                                   then (Returns (token, None), snd (writeStoredToken w token s4))
                                   else resolveByDeviceFlow w s4)))))"

section \<open>Example worlds\<close>

text \<open>A world in which nothing is configured: no environment variable is set, there is no user
  configuration directory, no companion CLI, no network, and no channel event arrives.\<close>

definition bareWorld :: world where
  "bareWorld =
     \<lparr>Getenv = (\<lambda>key. []),
      UserConfigDir = Inl (LibError ''neither $XDG_CONFIG_HOME nor $HOME are defined''),
      ReadFileErr = (\<lambda>path. None),
      MkdirAllErr = (\<lambda>path. None),
      WriteFileErr = (\<lambda>path. None),
      LookPath = (\<lambda>file. Some (LibError ''executable file not found in $PATH'')),
      ghAuthToken = (\<lambda>n. Inl (LibError ''exit status 1'')),
      ghAuthLogin = Some (LibError ''exit status 1''),
      deviceCodeEndpoint = Inl (LibError ''dial tcp: connection refused''),
      tokenEndpoint = (\<lambda>n. Inl (LibError ''dial tcp: connection refused'')),
      selects = []\<rparr>"

text \<open>The environment credential is set, with white space around it.\<close>

definition envWorld :: world where
  "envWorld =
     bareWorld\<lparr>Getenv := (\<lambda>key. if key = ''GITHUB_TOKEN'' then ''  ghp_abc\<newline>'' else [])\<rparr>"

text \<open>An HTTP response with status 200 whose body decodes to the given value.\<close>

definition jsonResponse :: "string \<Rightarrow> 'a \<Rightarrow> 'a response" where
  "jsonResponse body v = \<lparr>StatusCode = 200, Body = body, Decode = Inr v\<rparr>"

definition errorReply :: "string \<Rightarrow> deviceTokenResponse response" where
  \<open>errorReply code =
     jsonResponse (''{"error":"'' @ code @ ''"}'')
       \<lparr>AccessToken = [], TokenType = [], Scope = [], Error = code, ErrorDesc = []\<rparr>\<close>

definition tokenReply :: "string \<Rightarrow> deviceTokenResponse response" where
  \<open>tokenReply tok =
     jsonResponse (''{"access_token":"'' @ tok @ ''","token_type":"bearer","scope":"repo"}'')
       \<lparr>AccessToken = tok, TokenType = ''bearer'', Scope = ''repo'', Error = [], ErrorDesc = []\<rparr>\<close>

text \<open>A response whose body is not JSON.\<close>

definition badGateway :: "'a response" where
  "badGateway =
     \<lparr>StatusCode = 502, Body = ''<html>Bad Gateway</html>'',
      Decode = Inl (LibError ''invalid character looking for beginning of value'')\<rparr>"

text \<open>The endpoint answers with the listed responses in turn, and is unreachable after.\<close>

definition script :: "'a list \<Rightarrow> nat \<Rightarrow> error + 'a" where
  "script rs n =
     (if n < length rs then Inr (rs ! n) else Inl (LibError ''connection reset by peer''))"

definition specDeviceCode :: deviceCodeResponse where
  "specDeviceCode =
     \<lparr>DeviceCode = ''D'', UserCode = ''ABCD-1234'',
      VerificationURI = ''https://github.com/login/device'', VerificationURIComplete = [],
      ExpiresIn = 900, Interval = 5\<rparr>"

text \<open>Only the OAuth client identifier is configured: the device flow is the one way left.\<close>

definition flowWorld ::
  "deviceCodeResponse \<Rightarrow> (nat \<Rightarrow> error + deviceTokenResponse response) \<Rightarrow>
   selectCase list \<Rightarrow> world" where
  "flowWorld dc replies cs =
     bareWorld\<lparr>Getenv := (\<lambda>key. if key = ''GITHUB_OAUTH_CLIENT_ID'' then ''Iv1.abc'' else []),
               deviceCodeEndpoint := Inr (jsonResponse [] dc),
               tokenEndpoint := replies,
               selects := cs\<rparr>"

definition allReplies :: world where
  "allReplies =
     flowWorld specDeviceCode
       (script [errorReply ''authorization_pending'', errorReply ''slow_down'',
                errorReply ''expired_token'', errorReply ''access_denied'',
                errorReply ''unsupported_grant_type'', tokenReply ''ghu_xyz'',
                tokenReply '' '', badGateway])
       []"

text \<open>A state in which \<open>n\<close> token requests have been sent.\<close>

definition polled :: "nat \<Rightarrow> state" where
  "polled n = (initState Map.empty)\<lparr>polls := n\<rparr>"

text \<open>A world with a user configuration directory and a working file system.\<close>

definition homeWorld :: world where
  "homeWorld = bareWorld\<lparr>UserConfigDir := Inr ''/home/u/.config''\<rparr>"

definition tokenPath :: string where
  "tokenPath = ''/home/u/.config/repoinit/token''"

text \<open>The companion CLI is installed and logged in.\<close>

definition ghWorld :: world where
  "ghWorld =
     homeWorld\<lparr>LookPath := (\<lambda>file. None),
               ghAuthToken := (\<lambda>n. Inr ''gho_abc\<newline>''),
               ghAuthLogin := None\<rparr>"

text \<open>The device flow of the specification's example: two polls are pending, the third is
  granted.\<close>

definition specFlow :: world where
  "specFlow =
     (flowWorld specDeviceCode
        (script [errorReply ''authorization_pending'', errorReply ''authorization_pending'',
                 tokenReply ''ghu_xyz''])
        [TickerC, TickerC, TickerC])\<lparr>UserConfigDir := Inr ''/home/u/.config''\<rparr>"

text \<open>The server asks for an interval of 18446744074 seconds.\<close>

definition hugeInterval :: world where
  "hugeInterval = flowWorld (specDeviceCode\<lparr>Interval := 18446744074\<rparr>) (script []) []"

text \<open>The server asks for an interval of 9223372037 seconds.\<close>

definition negativePeriod :: world where
  "negativePeriod = flowWorld (specDeviceCode\<lparr>Interval := 9223372037\<rparr>) (script []) []"

text \<open>The server gives no interval and answers \<open>slow_down\<close> twice; then the expiry timer fires.\<close>

definition slowDownFlow :: world where
  "slowDownFlow =
     flowWorld (specDeviceCode\<lparr>Interval := 0\<rparr>)
       (script [errorReply ''slow_down'', errorReply ''slow_down''])
       [TickerC, TickerC, Timeout]"


text \<open>The user declines the authorization at the first poll.\<close>

definition deniedFlow :: world where
  "deniedFlow = flowWorld specDeviceCode (script [errorReply ''access_denied'']) [TickerC]"

section \<open>Properties of \<open>strings.TrimSpace\<close>\<close>

lemma trimPrefixes_done:
  "find (\<lambda>e. e \<noteq> [] \<and> prefix e (trimPrefixes encs s)) encs = None"
proof (induction encs s rule: trimPrefixes.induct)
  case (1 encs s)
  show ?case
  proof (cases "find (\<lambda>e. e \<noteq> [] \<and> prefix e s) encs")
    case None
    then show ?thesis by (subst trimPrefixes.simps) simp
  next
    case (Some e)
    with "1" show ?thesis by (subst trimPrefixes.simps) simp
  qed
qed

lemma trimPrefixes_id:
  "find (\<lambda>e. e \<noteq> [] \<and> prefix e s) encs = None \<Longrightarrow> trimPrefixes encs s = s"
  by (subst trimPrefixes.simps) simp

lemma trimPrefixes_step:
  "find (\<lambda>e. e \<noteq> [] \<and> prefix e s) encs = Some e \<Longrightarrow>
   trimPrefixes encs s = trimPrefixes encs (drop (length e) s)"
  by (subst trimPrefixes.simps) simp

lemma trimPrefixes_suffix: "suffix (trimPrefixes encs s) s"
proof (induction encs s rule: trimPrefixes.induct)
  case (1 encs s)
  show ?case
  proof (cases "find (\<lambda>e. e \<noteq> [] \<and> prefix e s) encs")
    case None
    then show ?thesis by (simp add: trimPrefixes_id)
  next
    case (Some e)
    from "1" [OF Some]
    have "suffix (trimPrefixes encs (drop (length e) s)) (drop (length e) s)" .
    then have "suffix (trimPrefixes encs (drop (length e) s)) s"
      using suffix_drop suffix_order.trans by blast
    then show ?thesis by (simp add: trimPrefixes_step [OF Some])
  qed
qed

lemma spaceRunes_nonempty: "e \<in> set spaceRunes \<Longrightarrow> e \<noteq> []"
  by (auto simp: spaceRunes_def)

lemma no_leading_iff:
  "\<not> hasLeadingSpace s \<longleftrightarrow> find (\<lambda>e. e \<noteq> [] \<and> prefix e s) spaceRunes = None"
  by (auto simp: hasLeadingSpace_def list_ex_iff find_None_iff dest: spaceRunes_nonempty)

lemma no_trailing_iff:
  "\<not> hasTrailingSpace s \<longleftrightarrow>
   find (\<lambda>e. e \<noteq> [] \<and> prefix e (rev s)) (map rev spaceRunes) = None"
  by (auto simp: hasTrailingSpace_def list_ex_iff find_None_iff suffix_to_prefix
      dest: spaceRunes_nonempty)

lemma TrimSpace_no_trailing: "\<not> hasTrailingSpace (TrimSpace s)"
  unfolding no_trailing_iff TrimSpace_def rev_rev_ident by (rule trimPrefixes_done)

lemma TrimSpace_prefix_of_left: "prefix (TrimSpace s) (trimPrefixes spaceRunes s)"
proof -
  have "suffix (rev (TrimSpace s)) (rev (trimPrefixes spaceRunes s))"
    unfolding TrimSpace_def rev_rev_ident by (rule trimPrefixes_suffix)
  then show ?thesis by (simp add: suffix_to_prefix)
qed

lemma TrimSpace_no_leading: "\<not> hasLeadingSpace (TrimSpace s)"
proof
  assume "hasLeadingSpace (TrimSpace s)"
  then obtain e where e: "e \<in> set spaceRunes" "prefix e (TrimSpace s)"
    by (auto simp: hasLeadingSpace_def list_ex_iff)
  then have "prefix e (trimPrefixes spaceRunes s)"
    using TrimSpace_prefix_of_left prefix_order.trans by blast
  with e(1) have "hasLeadingSpace (trimPrefixes spaceRunes s)"
    by (auto simp: hasLeadingSpace_def list_ex_iff)
  then show False
    using trimPrefixes_done [of spaceRunes s] no_leading_iff by blast
qed

lemma TrimSpace_fixed:
  "\<not> hasLeadingSpace s \<Longrightarrow> \<not> hasTrailingSpace s \<Longrightarrow> TrimSpace s = s"
  by (simp add: TrimSpace_def no_leading_iff no_trailing_iff trimPrefixes_id)

lemma TrimSpace_idem: "TrimSpace (TrimSpace s) = TrimSpace s"
  by (rule TrimSpace_fixed) (rule TrimSpace_no_leading, rule TrimSpace_no_trailing)

lemma TrimSpace_Nil: "TrimSpace [] = []"
  by (simp add: TrimSpace_def trimPrefixes_id find_None_iff)

lemma TrimSpace_credentialOK: "TrimSpace s \<noteq> [] \<Longrightarrow> credentialOK (TrimSpace s)"
  by (simp add: credentialOK_def TrimSpace_no_leading TrimSpace_no_trailing)

lemma newline_in_spaceRune:
  "e \<in> set spaceRunes \<Longrightarrow> CHR 0x0A \<in> set e \<Longrightarrow> e = [CHR 0x0A]"
  by (auto simp: spaceRunes_def)

lemma TrimSpace_newline: "TrimSpace (TrimSpace s @ [CHR 0x0A]) = TrimSpace s"
proof -
  define t where "t = TrimSpace s"
  have nl: "\<not> hasLeadingSpace t" and nt: "\<not> hasTrailingSpace t"
    by (simp_all add: t_def TrimSpace_no_leading TrimSpace_no_trailing)
  show ?thesis
  proof (cases "t = []")
    case True
    have "find (\<lambda>e. e \<noteq> [] \<and> prefix e [CHR 0x0A]) spaceRunes = Some [CHR 0x0A]"
      by (simp add: spaceRunes_def)
    then have "trimPrefixes spaceRunes [CHR 0x0A] = trimPrefixes spaceRunes []"
      by (simp add: trimPrefixes_step)
    also have "\<dots> = []" by (simp add: trimPrefixes_id find_None_iff)
    finally have "TrimSpace [CHR 0x0A] = []"
      by (simp add: TrimSpace_def trimPrefixes_id find_None_iff)
    with True show ?thesis by (simp add: t_def [symmetric])
  next
    case False
    have "\<not> hasLeadingSpace (t @ [CHR 0x0A])"
    proof
      assume "hasLeadingSpace (t @ [CHR 0x0A])"
      then obtain e where e: "e \<in> set spaceRunes" "prefix e (t @ [CHR 0x0A])"
        by (auto simp: hasLeadingSpace_def list_ex_iff)
      from e(2) consider "prefix e t" | "e = t @ [CHR 0x0A]"
        by (auto simp: prefix_append prefix_Cons)
      then show False
      proof cases
        case 1
        with e(1) nl show False by (auto simp: hasLeadingSpace_def list_ex_iff)
      next
        case 2
        with e(1) have "e = [CHR 0x0A]" by (intro newline_in_spaceRune) auto
        with 2 False show False by simp
      qed
    qed
    then have l: "trimPrefixes spaceRunes (t @ [CHR 0x0A]) = t @ [CHR 0x0A]"
      by (simp add: no_leading_iff trimPrefixes_id)
    have "find (\<lambda>e. e \<noteq> [] \<and> prefix e (CHR 0x0A # rev t)) (map rev spaceRunes) =
          Some [CHR 0x0A]"
      by (simp add: spaceRunes_def)
    then have "trimPrefixes (map rev spaceRunes) (CHR 0x0A # rev t) =
               trimPrefixes (map rev spaceRunes) (rev t)"
      by (simp add: trimPrefixes_step)
    also have "\<dots> = rev t"
      using nt by (simp add: no_trailing_iff trimPrefixes_id)
    finally show ?thesis
      by (simp add: TrimSpace_def [of "t @ _"] l t_def [symmetric])
  qed
qed

text \<open>Two runs: ASCII white space, and a no-break space (U+00A0) in front with an ideographic
  space (U+3000) and a line feed behind.\<close>

lemma TrimSpace_examples:
  "TrimSpace '' \<newline> ghp_abc def \<newline>'' = ''ghp_abc def''"
  "TrimSpace [CHR 0xC2, CHR 0xA0, CHR ''a'', CHR 0xE3, CHR 0x80, CHR 0x80, CHR 0x0A] = ''a''"
  "TrimSpace [CHR 0xA0, CHR ''a'', CHR 0x80] = [CHR 0xA0, CHR ''a'', CHR 0x80]"
  by (simp_all add: TrimSpace_def spaceRunes_def trimPrefixes.simps)

section \<open>The environment credential\<close>

text \<open>
  C2. When the environment variable \<open>GITHUB_TOKEN\<close> is not blank, the resolver returns its
  trimmed value and leaves the state as it was: the files are unchanged (nothing is
  persisted) and the trace of effects has no new entry (no file read, no file write, no
  subprocess, no network call).
\<close>

theorem resolve_env_credential:
  assumes "TrimSpace (Getenv w ''GITHUB_TOKEN'') \<noteq> []"
  shows "resolveGitHubToken w s = (Returns (TrimSpace (Getenv w ''GITHUB_TOKEN''), None), s)"
  using assms by (simp add: resolveGitHubToken_def Let_def)

lemma envWorld_token: "TrimSpace (Getenv envWorld ''GITHUB_TOKEN'') = ''ghp_abc''"
  by (simp add: envWorld_def bareWorld_def TrimSpace_def spaceRunes_def trimPrefixes.simps)

theorem resolve_env_credential_witness:
  "TrimSpace (Getenv envWorld ''GITHUB_TOKEN'') \<noteq> [] \<and>
   resolveGitHubToken envWorld (initState Map.empty) =
     (Returns (''ghp_abc'', None), initState Map.empty)"
proof -
  have h: "TrimSpace (Getenv envWorld ''GITHUB_TOKEN'') \<noteq> []"
    by (simp add: envWorld_token)
  show ?thesis
    using h resolve_env_credential [OF h, of "initState Map.empty"]
    by (simp add: envWorld_token)
qed

section \<open>One poll of the token endpoint\<close>

lemmas TrimSpace_eval = TrimSpace_def spaceRunes_def trimPrefixes.simps

lemma pollDeviceToken_polls:
  "polls (snd (pollDeviceToken w clientID deviceCode s)) = Suc (polls s)"
  by (simp add: pollDeviceToken_def Let_def emit_def split: sum.splits)

lemma pollDeviceToken_trace:
  "trace (snd (pollDeviceToken w clientID deviceCode s)) =
     trace s @ [EvHTTPPost ''https://github.com/login/oauth/access_token''
                  [(''client_id'', clientID), (''device_code'', deviceCode),
                   (''grant_type'', ''urn:ietf:params:oauth:grant-type:device_code'')]]"
  by (simp add: pollDeviceToken_def Let_def emit_def split: sum.splits)

text \<open>
  C1. When the body of a poll response decodes to \<open>tr\<close>, \<open>pollDeviceToken\<close> and the loop
  classify it by its \<open>error\<close> field (empty when the field is absent):
  no error and a non-blank access token is a grant, the loop returns the (trimmed) token;
  \<open>authorization_pending\<close> and \<open>slow_down\<close> make the loop go on with the next event, the
  ticker untouched; \<open>expired_token\<close> ends the loop with the error "device code expired";
  \<open>access_denied\<close> ends it at once with "access denied by user", whatever events would
  follow; any other non-empty code ends it with the error "oauth error: " and the code.
\<close>

theorem poll_classification:
  assumes "tokenEndpoint w (polls s) = Inr resp" and "Decode resp = Inr tr"
  shows
    "(Error tr = [] \<and> TrimSpace (AccessToken tr) \<noteq> [] \<longrightarrow>
        fst (pollDeviceToken w clientID deviceCode s) = (TrimSpace (AccessToken tr), False, None) \<and>
        pollLoop w clientID deviceCode (TickerC # cs) s =
          (Returns (TrimSpace (AccessToken tr), None), snd (pollDeviceToken w clientID deviceCode s))) \<and>
     (Error tr = ''authorization_pending'' \<or> Error tr = ''slow_down'' \<longrightarrow>
        fst (pollDeviceToken w clientID deviceCode s) = ([], True, None) \<and>
        pollLoop w clientID deviceCode (TickerC # cs) s =
          pollLoop w clientID deviceCode cs (snd (pollDeviceToken w clientID deviceCode s))) \<and>
     (Error tr = ''expired_token'' \<longrightarrow>
        fst (pollDeviceToken w clientID deviceCode s) = ([], False, Some DeviceCodeExpired) \<and>
        pollLoop w clientID deviceCode (TickerC # cs) s =
          (Returns ([], Some DeviceCodeExpired), snd (pollDeviceToken w clientID deviceCode s))) \<and>
     (Error tr = ''access_denied'' \<longrightarrow>
        fst (pollDeviceToken w clientID deviceCode s) = ([], False, Some AccessDeniedByUser) \<and>
        pollLoop w clientID deviceCode (TickerC # cs) s =
          (Returns ([], Some AccessDeniedByUser), snd (pollDeviceToken w clientID deviceCode s))) \<and>
     (Error tr \<noteq> [] \<and> Error tr \<noteq> ''authorization_pending'' \<and> Error tr \<noteq> ''slow_down'' \<and>
      Error tr \<noteq> ''expired_token'' \<and> Error tr \<noteq> ''access_denied'' \<longrightarrow>
        fst (pollDeviceToken w clientID deviceCode s) = ([], False, Some (OAuthError (Error tr))) \<and>
        pollLoop w clientID deviceCode (TickerC # cs) s =
          (Returns ([], Some (OAuthError (Error tr))), snd (pollDeviceToken w clientID deviceCode s)))"
  using assms by (simp add: pollDeviceToken_def Let_def)

lemma allReplies_endpoint:
  "tokenEndpoint allReplies 0 = Inr (errorReply ''authorization_pending'')"
  "tokenEndpoint allReplies 1 = Inr (errorReply ''slow_down'')"
  "tokenEndpoint allReplies 2 = Inr (errorReply ''expired_token'')"
  "tokenEndpoint allReplies 3 = Inr (errorReply ''access_denied'')"
  "tokenEndpoint allReplies 4 = Inr (errorReply ''unsupported_grant_type'')"
  "tokenEndpoint allReplies 5 = Inr (tokenReply ''ghu_xyz'')"
  "tokenEndpoint allReplies 6 = Inr (tokenReply '' '')"
  by (simp_all add: allReplies_def flowWorld_def script_def)

lemma reply_Decode:
  "Decode (errorReply code) =
     Inr \<lparr>AccessToken = [], TokenType = [], Scope = [], Error = code, ErrorDesc = []\<rparr>"
  "Decode (tokenReply tok) =
     Inr \<lparr>AccessToken = tok, TokenType = ''bearer'', Scope = ''repo'', Error = [], ErrorDesc = []\<rparr>"
  by (simp_all add: errorReply_def tokenReply_def jsonResponse_def)

lemma polls_polled: "polls (polled n) = n"
  by (simp add: polled_def initState_def)

theorem poll_classification_witness:
  "pollLoop allReplies ''Iv1.abc'' ''D'' [TickerC, Timeout] (polled 0) =
     (Returns ([], Some DeviceCodeExpiredTryAgain),
      snd (pollDeviceToken allReplies ''Iv1.abc'' ''D'' (polled 0))) \<and>
   pollLoop allReplies ''Iv1.abc'' ''D'' [TickerC, Timeout] (polled 1) =
     (Returns ([], Some DeviceCodeExpiredTryAgain),
      snd (pollDeviceToken allReplies ''Iv1.abc'' ''D'' (polled 1))) \<and>
   pollLoop allReplies ''Iv1.abc'' ''D'' [TickerC, Timeout] (polled 2) =
     (Returns ([], Some DeviceCodeExpired),
      snd (pollDeviceToken allReplies ''Iv1.abc'' ''D'' (polled 2))) \<and>
   pollLoop allReplies ''Iv1.abc'' ''D'' [TickerC, Timeout] (polled 3) =
     (Returns ([], Some AccessDeniedByUser),
      snd (pollDeviceToken allReplies ''Iv1.abc'' ''D'' (polled 3))) \<and>
   pollLoop allReplies ''Iv1.abc'' ''D'' [TickerC, Timeout] (polled 4) =
     (Returns ([], Some (OAuthError ''unsupported_grant_type'')),
      snd (pollDeviceToken allReplies ''Iv1.abc'' ''D'' (polled 4))) \<and>
   pollLoop allReplies ''Iv1.abc'' ''D'' [TickerC, Timeout] (polled 5) =
     (Returns (''ghu_xyz'', None),
      snd (pollDeviceToken allReplies ''Iv1.abc'' ''D'' (polled 5)))"
proof -
  note c = poll_classification [where w = allReplies and clientID = "''Iv1.abc''"
      and deviceCode = "''D''" and cs = "[Timeout]"]
  have t: "TrimSpace ''ghu_xyz'' = ''ghu_xyz''"
    by (simp add: TrimSpace_eval)
  from c [where s = "polled 0", unfolded polls_polled, OF allReplies_endpoint(1) reply_Decode(1)]
  have p0: "pollLoop allReplies ''Iv1.abc'' ''D'' [TickerC, Timeout] (polled 0) =
     (Returns ([], Some DeviceCodeExpiredTryAgain),
      snd (pollDeviceToken allReplies ''Iv1.abc'' ''D'' (polled 0)))"
    by simp
  from c [where s = "polled 1", unfolded polls_polled, OF allReplies_endpoint(2) reply_Decode(1)]
  have p1: "pollLoop allReplies ''Iv1.abc'' ''D'' [TickerC, Timeout] (polled 1) =
     (Returns ([], Some DeviceCodeExpiredTryAgain),
      snd (pollDeviceToken allReplies ''Iv1.abc'' ''D'' (polled 1)))"
    by simp
  from c [where s = "polled 2", unfolded polls_polled, OF allReplies_endpoint(3) reply_Decode(1)]
  have p2: "pollLoop allReplies ''Iv1.abc'' ''D'' [TickerC, Timeout] (polled 2) =
     (Returns ([], Some DeviceCodeExpired),
      snd (pollDeviceToken allReplies ''Iv1.abc'' ''D'' (polled 2)))"
    by simp
  from c [where s = "polled 3", unfolded polls_polled, OF allReplies_endpoint(4) reply_Decode(1)]
  have p3: "pollLoop allReplies ''Iv1.abc'' ''D'' [TickerC, Timeout] (polled 3) =
     (Returns ([], Some AccessDeniedByUser),
      snd (pollDeviceToken allReplies ''Iv1.abc'' ''D'' (polled 3)))"
    by simp
  from c [where s = "polled 4", unfolded polls_polled, OF allReplies_endpoint(5) reply_Decode(1)]
  have p4: "pollLoop allReplies ''Iv1.abc'' ''D'' [TickerC, Timeout] (polled 4) =
     (Returns ([], Some (OAuthError ''unsupported_grant_type'')),
      snd (pollDeviceToken allReplies ''Iv1.abc'' ''D'' (polled 4)))"
    by simp
  from c [where s = "polled 5", unfolded polls_polled, OF allReplies_endpoint(6) reply_Decode(2)]
  have p5: "pollLoop allReplies ''Iv1.abc'' ''D'' [TickerC, Timeout] (polled 5) =
     (Returns (''ghu_xyz'', None),
      snd (pollDeviceToken allReplies ''Iv1.abc'' ''D'' (polled 5)))"
    by (simp add: t)
  from p0 p1 p2 p3 p4 p5 show ?thesis by blast
qed

text \<open>
  C9. When a poll response has no (or an empty) \<open>error\<close> field and a blank access token, the
  loop ends at this poll with the error "authorization declined": it sends no further
  request, returns no token, and the error is not the protocol error.
\<close>


theorem blank_token_declined:
  assumes "tokenEndpoint w (polls s) = Inr resp" and "Decode resp = Inr tr"
    and "Error tr = []" and "TrimSpace (AccessToken tr) = []"
  shows "pollLoop w clientID deviceCode (TickerC # cs) s =
           (Returns ([], Some AuthorizationDeclined), snd (pollDeviceToken w clientID deviceCode s)) \<and>
         polls (snd (pollDeviceToken w clientID deviceCode s)) = Suc (polls s) \<and>
         errorString AuthorizationDeclined = ''authorization declined''"
  using assms by (simp add: pollDeviceToken_def Let_def emit_def)

theorem blank_token_declined_witness:
  "pollLoop allReplies ''Iv1.abc'' ''D'' [TickerC, TickerC] (polled 6) =
     (Returns ([], Some AuthorizationDeclined),
      snd (pollDeviceToken allReplies ''Iv1.abc'' ''D'' (polled 6))) \<and>
   polls (snd (pollDeviceToken allReplies ''Iv1.abc'' ''D'' (polled 6))) = 7"
proof -
  have t: "TrimSpace (AccessToken \<lparr>AccessToken = '' '', TokenType = ''bearer'', Scope = ''repo'',
             Error = [], ErrorDesc = []\<rparr>) = []"
    by (simp add: TrimSpace_eval)
  from blank_token_declined [where w = allReplies and s = "polled 6" and cs = "[TickerC]"
      and clientID = "''Iv1.abc''" and deviceCode = "''D''",
      unfolded polls_polled, OF allReplies_endpoint(7) reply_Decode(2) _ t]
  show ?thesis by simp
qed

text \<open>
  C10. A poll that returns an error ends the loop with that error, also when the poll says
  to continue: so does a request that fails, a body that does not decode, and an
  unrecognised error code. The state is the one right after this request: one request
  more has been sent, and the events that would follow are not looked at.
\<close>


theorem poll_error_terminal:
  "(\<forall>token cont err s'.
      pollDeviceToken w clientID deviceCode s = ((token, cont, Some err), s') \<longrightarrow>
      pollLoop w clientID deviceCode (TickerC # cs) s = (Returns ([], Some err), s')) \<and>
   (\<forall>err. tokenEndpoint w (polls s) = Inl err \<longrightarrow>
      pollLoop w clientID deviceCode (TickerC # cs) s =
        (Returns ([], Some err), snd (pollDeviceToken w clientID deviceCode s))) \<and>
   (\<forall>resp err. tokenEndpoint w (polls s) = Inr resp \<and> Decode resp = Inl err \<longrightarrow>
      pollLoop w clientID deviceCode (TickerC # cs) s =
        (Returns ([], Some err), snd (pollDeviceToken w clientID deviceCode s))) \<and>
   (\<forall>resp tr. tokenEndpoint w (polls s) = Inr resp \<and> Decode resp = Inr tr \<and>
      Error tr \<noteq> [] \<and> Error tr \<noteq> ''authorization_pending'' \<and> Error tr \<noteq> ''slow_down'' \<and>
      Error tr \<noteq> ''expired_token'' \<and> Error tr \<noteq> ''access_denied'' \<longrightarrow>
      pollLoop w clientID deviceCode (TickerC # cs) s =
        (Returns ([], Some (OAuthError (Error tr))), snd (pollDeviceToken w clientID deviceCode s))) \<and>
   polls (snd (pollDeviceToken w clientID deviceCode s)) = Suc (polls s) \<and>
   trace (snd (pollDeviceToken w clientID deviceCode s)) =
     trace s @ [EvHTTPPost ''https://github.com/login/oauth/access_token''
                  [(''client_id'', clientID), (''device_code'', deviceCode),
                   (''grant_type'', ''urn:ietf:params:oauth:grant-type:device_code'')]]"
  by (simp add: pollDeviceToken_polls pollDeviceToken_trace) (simp add: pollDeviceToken_def Let_def)

theorem poll_error_terminal_witness:
  "pollLoop allReplies ''Iv1.abc'' ''D'' [TickerC, TickerC] (polled 8) =
     (Returns ([], Some (LibError ''connection reset by peer'')),
      snd (pollDeviceToken allReplies ''Iv1.abc'' ''D'' (polled 8))) \<and>
   pollLoop allReplies ''Iv1.abc'' ''D'' [TickerC, TickerC] (polled 7) =
     (Returns ([], Some (LibError ''invalid character looking for beginning of value'')),
      snd (pollDeviceToken allReplies ''Iv1.abc'' ''D'' (polled 7))) \<and>
   pollLoop allReplies ''Iv1.abc'' ''D'' [TickerC, TickerC] (polled 4) =
     (Returns ([], Some (OAuthError ''unsupported_grant_type'')),
      snd (pollDeviceToken allReplies ''Iv1.abc'' ''D'' (polled 4))) \<and>
   polls (snd (pollDeviceToken allReplies ''Iv1.abc'' ''D'' (polled 4))) = 5"
proof -
  note c = poll_error_terminal [where w = allReplies and clientID = "''Iv1.abc''"
      and deviceCode = "''D''" and cs = "[TickerC]"]
  have e8: "tokenEndpoint allReplies 8 = Inl (LibError ''connection reset by peer'')"
    by (simp add: allReplies_def flowWorld_def script_def)
  have e7: "tokenEndpoint allReplies 7 = Inr badGateway"
    by (simp add: allReplies_def flowWorld_def script_def)
  have d7: "Decode (badGateway :: deviceTokenResponse response) =
            Inl (LibError ''invalid character looking for beginning of value'')"
    by (simp add: badGateway_def)
  from c [where s = "polled 8", unfolded polls_polled] e8
  have p8: "pollLoop allReplies ''Iv1.abc'' ''D'' [TickerC, TickerC] (polled 8) =
     (Returns ([], Some (LibError ''connection reset by peer'')),
      snd (pollDeviceToken allReplies ''Iv1.abc'' ''D'' (polled 8)))"
    by blast
  from c [where s = "polled 7", unfolded polls_polled] e7 d7
  have p7: "pollLoop allReplies ''Iv1.abc'' ''D'' [TickerC, TickerC] (polled 7) =
     (Returns ([], Some (LibError ''invalid character looking for beginning of value'')),
      snd (pollDeviceToken allReplies ''Iv1.abc'' ''D'' (polled 7)))"
    by blast
  from c [where s = "polled 4", unfolded polls_polled] allReplies_endpoint(5) reply_Decode(1)
  have p4: "pollLoop allReplies ''Iv1.abc'' ''D'' [TickerC, TickerC] (polled 4) =
     (Returns ([], Some (OAuthError ''unsupported_grant_type'')),
      snd (pollDeviceToken allReplies ''Iv1.abc'' ''D'' (polled 4))) \<and>
     polls (snd (pollDeviceToken allReplies ''Iv1.abc'' ''D'' (polled 4))) = 5"
    by (simp add: errorReply_def jsonResponse_def)
  from p8 p7 p4 show ?thesis by blast
qed

section \<open>The expiry timer in the order of events\<close>

text \<open>
  The model has the order of the channel events, not their times. In that order: while
  every poll answers \<open>authorization_pending\<close> or \<open>slow_down\<close>, the loop polls once for each
  tick, and at the first event of the expiry timer it returns the error "device code
  expired; please try again", whatever the polls have answered.
\<close>

lemma pending_continues:
  assumes "tokenEndpoint w (polls s) = Inr resp" and "Decode resp = Inr tr"
    and "Error tr = ''authorization_pending'' \<or> Error tr = ''slow_down''"
  shows "pollLoop w clientID deviceCode (TickerC # cs) s =
         pollLoop w clientID deviceCode cs (snd (pollDeviceToken w clientID deviceCode s))"
  using assms by (auto simp: pollDeviceToken_def Let_def)

lemma timeout_ends_polling:
  assumes "\<forall>n. \<exists>resp tr. tokenEndpoint w n = Inr resp \<and> Decode resp = Inr tr \<and>
             (Error tr = ''authorization_pending'' \<or> Error tr = ''slow_down'')"
  shows "fst (pollLoop w clientID deviceCode (replicate k TickerC @ Timeout # cs) s) =
           Returns ([], Some DeviceCodeExpiredTryAgain) \<and>
         polls (snd (pollLoop w clientID deviceCode (replicate k TickerC @ Timeout # cs) s)) =
           polls s + k"
proof (induction k arbitrary: s)
  case 0
  show ?case by simp
next
  case (Suc k)
  from assms obtain resp tr where
    "tokenEndpoint w (polls s) = Inr resp" "Decode resp = Inr tr"
    "Error tr = ''authorization_pending'' \<or> Error tr = ''slow_down''"
    by blast
  from pending_continues [OF this]
  have "pollLoop w clientID deviceCode (replicate (Suc k) TickerC @ Timeout # cs) s =
        pollLoop w clientID deviceCode (replicate k TickerC @ Timeout # cs)
          (snd (pollDeviceToken w clientID deviceCode s))"
    by simp
  with Suc.IH [of "snd (pollDeviceToken w clientID deviceCode s)"] show ?case
    by (simp add: pollDeviceToken_polls)
qed

section \<open>The token store: write, then read\<close>

lemma homeWorld_path: "configTokenPath homeWorld = (tokenPath, None)"
  by (simp add: configTokenPath_def homeWorld_def bareWorld_def filepathJoin_def tokenPath_def)

lemma homeWorld_os:
  "ReadFileErr homeWorld path = None" "MkdirAllErr homeWorld path = None"
  "WriteFileErr homeWorld path = None"
  by (simp_all add: homeWorld_def bareWorld_def)

lemma tokenPath_Dir: "filepathDir tokenPath = ''/home/u/.config/repoinit''"
  by (simp add: filepathDir_def tokenPath_def)

text \<open>
  C6, as the code has it. A write that succeeds, followed by a read of a readable file,
  returns the trimmed payload, whatever white space or newline the payload had around it.
  The write replaces the content of the file (it does not append). The read returns an
  error when the file is absent or unreadable. When the file is empty after trimming, the
  read returns the empty string and no error.
\<close>

theorem store_roundtrip:
  "(\<forall>s'. writeStoredToken w payload s = (None, s') \<and>
          ReadFileErr w (fst (configTokenPath w)) = None \<longrightarrow>
          fst (readStoredToken w s') = (TrimSpace payload, None)) \<and>
   (\<forall>s'. writeStoredToken w payload s = (None, s') \<longrightarrow>
          files s' = (files s)(fst (configTokenPath w) \<mapsto> TrimSpace payload @ ''\<newline>'')) \<and>
   (\<forall>path. configTokenPath w = (path, None) \<and> files s path = None \<longrightarrow>
          fst (fst (readStoredToken w s)) = [] \<and> snd (fst (readStoredToken w s)) \<noteq> None) \<and>
   (\<forall>path err. configTokenPath w = (path, None) \<and> ReadFileErr w path = Some err \<longrightarrow>
          fst (readStoredToken w s) = ([], Some err)) \<and>
   (\<forall>path data. configTokenPath w = (path, None) \<and> ReadFileErr w path = None \<and>
          files s path = Some data \<and> TrimSpace data = [] \<longrightarrow>
          fst (readStoredToken w s) = ([], None))"
  by (auto simp: writeStoredToken_def readStoredToken_def osWriteFile_def osMkdirAll_def
      osReadFile_def emit_def TrimSpace_newline
      split: prod.splits option.splits sum.splits)

theorem store_roundtrip_witness:
  "fst (writeStoredToken homeWorld ''  ghp_abc \<newline>'' (initState [tokenPath \<mapsto> ''old\<newline>''])) = None \<and>
   files (snd (writeStoredToken homeWorld ''  ghp_abc \<newline>'' (initState [tokenPath \<mapsto> ''old\<newline>''])))
     = [tokenPath \<mapsto> ''ghp_abc\<newline>''] \<and>
   fst (readStoredToken homeWorld
         (snd (writeStoredToken homeWorld ''  ghp_abc \<newline>'' (initState [tokenPath \<mapsto> ''old\<newline>'']))))
     = (''ghp_abc'', None) \<and>
   fst (readStoredToken homeWorld (initState Map.empty)) =
     ([], Some (LibError ''no such file or directory'')) \<and>
   fst (readStoredToken (homeWorld\<lparr>ReadFileErr := (\<lambda>path. Some (LibError ''permission denied''))\<rparr>)
          (initState [tokenPath \<mapsto> ''old\<newline>''])) = ([], Some (LibError ''permission denied''))"
proof -
  let ?s = "initState [tokenPath \<mapsto> ''old\<newline>'']"
  let ?p = "''  ghp_abc \<newline>''"
  have t: "TrimSpace ?p = ''ghp_abc''" by (simp add: TrimSpace_eval)
  have w0: "fst (writeStoredToken homeWorld ?p ?s) = None"
    by (simp add: writeStoredToken_def homeWorld_path osMkdirAll_def osWriteFile_def
        homeWorld_os)
  then have w: "writeStoredToken homeWorld ?p ?s = (None, snd (writeStoredToken homeWorld ?p ?s))"
    by (simp add: prod_eq_iff)
  have r: "ReadFileErr homeWorld (fst (configTokenPath homeWorld)) = None"
    by (simp add: homeWorld_os)
  note c = store_roundtrip [where w = homeWorld and payload = ?p and s = ?s]
  from c w r have 1: "fst (readStoredToken homeWorld (snd (writeStoredToken homeWorld ?p ?s)))
      = (''ghp_abc'', None)"
    unfolding t by blast
  from c w have 2: "files (snd (writeStoredToken homeWorld ?p ?s)) = [tokenPath \<mapsto> ''ghp_abc\<newline>'']"
    unfolding t homeWorld_path by (simp add: initState_def)
  have 3: "fst (readStoredToken homeWorld (initState Map.empty)) =
     ([], Some (LibError ''no such file or directory''))"
    by (simp add: readStoredToken_def homeWorld_path osReadFile_def homeWorld_os
        initState_def)
  have 4: "fst (readStoredToken (homeWorld\<lparr>ReadFileErr := (\<lambda>path. Some (LibError ''permission denied''))\<rparr>)
          (initState [tokenPath \<mapsto> ''old\<newline>''])) = ([], Some (LibError ''permission denied''))"
    by (simp add: readStoredToken_def configTokenPath_def osReadFile_def homeWorld_def
        bareWorld_def)
  from w0 1 2 3 4 show ?thesis by blast
qed

text \<open>
  C6 as stated fails in its last part: on a file that holds only white space,
  \<open>readStoredToken\<close> returns the empty string with a nil error; it does not fail.
\<close>

theorem blank_file_read_counterexample:
  "TrimSpace '' \<newline>'' = [] \<and>
   fst (readStoredToken homeWorld (initState [tokenPath \<mapsto> '' \<newline>''])) = ([], None)"
  by (simp add: readStoredToken_def homeWorld_path osReadFile_def homeWorld_os
      initState_def emit_def TrimSpace_eval)

section \<open>What the steps of the resolver leave unchanged, and what they return\<close>

lemma files_emit [simp]: "files (emit ev s) = files s"
  by (simp add: emit_def)

lemma trace_emit [simp]: "trace (emit ev s) = trace s @ [ev]"
  by (simp add: emit_def)

lemma readStoredToken_files: "files (snd (readStoredToken w s)) = files s"
  by (simp add: readStoredToken_def osReadFile_def split: prod.splits option.splits sum.splits)

lemma tryGhToken_files: "files (snd (tryGhToken w s)) = files s"
  by (simp add: tryGhToken_def execLookPath_def Let_def split: option.splits sum.splits)

lemma tryGhWebLogin_files: "files (snd (tryGhWebLogin w s)) = files s"
  by (simp add: tryGhWebLogin_def execLookPath_def split: option.splits)

lemma pollDeviceToken_files: "files (snd (pollDeviceToken w clientID deviceCode s)) = files s"
  by (simp add: pollDeviceToken_def Let_def split: sum.splits)

lemma pollLoop_files: "files (snd (pollLoop w clientID deviceCode cs s)) = files s"
proof (induction cs arbitrary: s)
  case Nil
  show ?case by simp
next
  case (Cons c cs)
  show ?case
  proof (cases c)
    case TickerC
    obtain token cont err s' where p: "pollDeviceToken w clientID deviceCode s = ((token, cont, err), s')"
      by (metis prod.collapse)
    then have "files s' = files s"
      using pollDeviceToken_files [of w clientID deviceCode s] by simp
    with p TickerC Cons.IH [of s'] show ?thesis
      by (simp split: option.splits)
  qed simp_all
qed

lemma runDeviceFlow_files: "files (snd (runDeviceFlow w clientID scopes s)) = files s"
  by (simp add: runDeviceFlow_def Let_def pollLoop_files split: sum.splits)

lemma writeStoredToken_files:
  "files (snd (writeStoredToken w token s)) = files s \<or>
   files (snd (writeStoredToken w token s)) =
     (files s)(fst (configTokenPath w) \<mapsto> TrimSpace token @ ''\<newline>'')"
  by (simp add: writeStoredToken_def osMkdirAll_def osWriteFile_def
      split: prod.splits option.splits)

lemma credentialOK_TrimSpace: "credentialOK c \<Longrightarrow> TrimSpace c = c"
  by (simp add: credentialOK_def TrimSpace_fixed)

lemma readStoredToken_token:
  "readStoredToken w s = ((token, err), s') \<Longrightarrow> token \<noteq> [] \<Longrightarrow> credentialOK token"
  by (auto simp: readStoredToken_def osReadFile_def TrimSpace_credentialOK
      split: prod.splits option.splits sum.splits)

lemma tryGhToken_token:
  "tryGhToken w s = ((token, err), s') \<Longrightarrow> token \<noteq> [] \<Longrightarrow> credentialOK token"
  by (auto simp: tryGhToken_def execLookPath_def Let_def TrimSpace_credentialOK
      split: option.splits sum.splits if_splits)

lemma pollDeviceToken_token:
  "pollDeviceToken w clientID deviceCode s = ((token, cont, err), s') \<Longrightarrow> token \<noteq> [] \<Longrightarrow>
   credentialOK token"
  by (auto simp: pollDeviceToken_def Let_def TrimSpace_credentialOK
      split: sum.splits if_splits)

lemma pollLoop_token:
  "pollLoop w clientID deviceCode cs s = (Returns (token, err), s') \<Longrightarrow>
   (err = None \<longrightarrow> credentialOK token) \<and> (err \<noteq> None \<longrightarrow> token = [])"
proof (induction cs arbitrary: s)
  case Nil
  then show ?case by simp
next
  case (Cons c cs)
  show ?case
  proof (cases c)
    case TickerC
    obtain t cont e s1 where p: "pollDeviceToken w clientID deviceCode s = ((t, cont, e), s1)"
      by (metis prod.collapse)
    show ?thesis
    proof (cases e)
      case (Some a)
      with p TickerC Cons.prems show ?thesis by auto
    next
      case None
      show ?thesis
      proof (cases "t \<noteq> []")
        case True
        with p None TickerC Cons.prems pollDeviceToken_token [OF p] show ?thesis by auto
      next
        case False
        with p None TickerC Cons.prems Cons.IH [of s1] show ?thesis
          by (auto split: if_splits)
      qed
    qed
  next
    case (CtxDone e)
    with Cons.prems show ?thesis by auto
  next
    case Timeout
    with Cons.prems show ?thesis by auto
  qed
qed

lemma runDeviceFlow_token:
  "runDeviceFlow w clientID scopes s = (Returns (token, err), s') \<Longrightarrow>
   (err = None \<longrightarrow> credentialOK token) \<and> (err \<noteq> None \<longrightarrow> token = [])"
  by (auto simp: runDeviceFlow_def Let_def split: sum.splits if_splits dest: pollLoop_token)

lemma resolveByDeviceFlow_invariant:
  assumes "resolveByDeviceFlow w s = (r, s')"
  shows "(\<forall>token. r = Returns (token, None) \<longrightarrow> credentialOK token) \<and>
         (files s' = files s \<or>
          (\<exists>token. r = Returns (token, None) \<and> credentialOK token \<and>
             files s' = (files s)(fst (configTokenPath w) \<mapsto> token @ ''\<newline>'')))"
proof (cases "TrimSpace (Getenv w ''GITHUB_OAUTH_CLIENT_ID'') = []")
  case True
  with assms show ?thesis by (auto simp: resolveByDeviceFlow_def)
next
  case False
  let ?c = "TrimSpace (Getenv w ''GITHUB_OAUTH_CLIENT_ID'')"
  obtain r1 s1 where f: "runDeviceFlow w ?c [''repo''] s = (r1, s1)"
    by (metis prod.collapse)
  then have fs: "files s1 = files s"
    using runDeviceFlow_files [of w ?c "[''repo'']" s] by simp
  show ?thesis
  proof (cases r1)
    case (Returns p)
    obtain token err where p: "p = (token, err)" by (cases p)
    note tok = runDeviceFlow_token [OF f [unfolded Returns p]]
    show ?thesis
    proof (cases err)
      case (Some e)
      with assms False f Returns p fs show ?thesis
        by (auto simp: resolveByDeviceFlow_def)
    next
      case None
      with tok have ok: "credentialOK token" by simp
      then have ne: "token \<noteq> []" by (simp add: credentialOK_def)
      from assms False f Returns p None ne
      have r: "r = Returns (token, None)" and s': "s' = snd (writeStoredToken w token s1)"
        by (auto simp: resolveByDeviceFlow_def)
      from writeStoredToken_files [of w token s1] ok fs r s' show ?thesis
        by (auto simp: credentialOK_TrimSpace)
    qed
  next
    case (Panics m)
    with assms False f fs show ?thesis by (auto simp: resolveByDeviceFlow_def)
  next
    case Blocks
    with assms False f fs show ?thesis by (auto simp: resolveByDeviceFlow_def)
  qed
qed

lemma persist_invariant:
  assumes "credentialOK token" and "files s1 = files s"
  shows "credentialOK token \<and>
         (files (snd (writeStoredToken w token s1)) = files s \<or>
          files (snd (writeStoredToken w token s1)) =
            (files s)(fst (configTokenPath w) \<mapsto> token @ ''\<newline>''))"
  using assms writeStoredToken_files [of w token s1] by (auto simp: credentialOK_TrimSpace)

text \<open>
  C8. A credential that the resolver returns is not empty and has no white space at either
  end, on every path (environment, stored file, companion CLI, device flow). The store is
  either left as it was, or its file holds that returned credential followed by a newline:
  what is persisted is the same non-empty trimmed credential.
\<close>

theorem credential_invariant:
  assumes "resolveGitHubToken w s = (r, s')"
  shows "(\<forall>token. r = Returns (token, None) \<longrightarrow> credentialOK token) \<and>
         (files s' = files s \<or>
          (\<exists>token. r = Returns (token, None) \<and> credentialOK token \<and>
             files s' = (files s)(fst (configTokenPath w) \<mapsto> token @ ''\<newline>'')))"
proof (cases "TrimSpace (Getenv w ''GITHUB_TOKEN'') = []")
  case False
  with assms show ?thesis
    by (auto simp: resolveGitHubToken_def Let_def TrimSpace_credentialOK)
next
  case env: True
  obtain t1 e1 s1 where rd: "readStoredToken w s = ((t1, e1), s1)"
    by (metis prod.collapse)
  have f1: "files s1 = files s" using readStoredToken_files [of w s] rd by simp
  show ?thesis
  proof (cases "t1 = []")
    case False
    with assms env rd f1 readStoredToken_token [OF rd] show ?thesis
      by (auto simp: resolveGitHubToken_def)
  next
    case t1: True
    obtain t2 e2 s2 where g1: "tryGhToken w s1 = ((t2, e2), s2)"
      by (metis prod.collapse)
    have f2: "files s2 = files s" using tryGhToken_files [of w s1] g1 f1 by simp
    show ?thesis
    proof (cases "e2 = None \<and> t2 \<noteq> []")
      case True
      with assms env rd t1 g1
      have r: "r = Returns (t2, None)" and s': "s' = snd (writeStoredToken w t2 s2)"
        by (auto simp: resolveGitHubToken_def)
      from True tryGhToken_token [OF g1] have "credentialOK t2" by simp
      from persist_invariant [OF this f2, of w] r s' show ?thesis by auto
    next
      case no2: False
      obtain e3 s3 where l: "tryGhWebLogin w s2 = (e3, s3)" by (metis prod.collapse)
      have f3: "files s3 = files s" using tryGhWebLogin_files [of w s2] l f2 by simp
      show ?thesis
      proof (cases e3)
        case (Some a)
        with assms env rd t1 g1 no2 l have "resolveByDeviceFlow w s3 = (r, s')"
          by (auto simp: resolveGitHubToken_def)
        from resolveByDeviceFlow_invariant [OF this] f3 show ?thesis by simp
      next
        case None
        obtain t4 e4 s4 where g2: "tryGhToken w s3 = ((t4, e4), s4)"
          by (metis prod.collapse)
        have f4: "files s4 = files s" using tryGhToken_files [of w s3] g2 f3 by simp
        show ?thesis
        proof (cases "e4 = None \<and> t4 \<noteq> []")
          case True
          with assms env rd t1 g1 no2 l None g2
          have r: "r = Returns (t4, None)" and s': "s' = snd (writeStoredToken w t4 s4)"
            by (auto simp: resolveGitHubToken_def)
          from True tryGhToken_token [OF g2] have "credentialOK t4" by simp
          from persist_invariant [OF this f4, of w] r s' show ?thesis by auto
        next
          case False
          with assms env rd t1 g1 no2 l None g2 have "resolveByDeviceFlow w s4 = (r, s')"
            by (auto simp: resolveGitHubToken_def)
          from resolveByDeviceFlow_invariant [OF this] f4 show ?thesis by simp
        qed
      qed
    qed
  qed
qed


lemma ghWorld_run:
  "resolveGitHubToken ghWorld (initState Map.empty) =
     (Returns (''gho_abc'', None),
      \<lparr>files = [tokenPath \<mapsto> ''gho_abc\<newline>''], ghRuns = 1, polls = 0,
       trace = [EvReadFile tokenPath, EvLookPath ''gh'', EvExec [''gh'', ''auth'', ''token''],
                EvMkdirAll ''/home/u/.config/repoinit'',
                EvWriteFile tokenPath ''gho_abc\<newline>'']\<rparr>)"
proof -
  have p: "configTokenPath ghWorld = (tokenPath, None)"
    by (simp add: configTokenPath_def ghWorld_def homeWorld_def bareWorld_def filepathJoin_def
        tokenPath_def)
  have e: "Getenv ghWorld = (\<lambda>key. [])" "ReadFileErr ghWorld = (\<lambda>path. None)"
    "MkdirAllErr ghWorld = (\<lambda>path. None)" "WriteFileErr ghWorld = (\<lambda>path. None)"
    "LookPath ghWorld = (\<lambda>file. None)" "ghAuthToken ghWorld = (\<lambda>n. Inr ''gho_abc\<newline>'')"
    by (simp_all add: ghWorld_def homeWorld_def bareWorld_def)
  have t: "TrimSpace ''gho_abc\<newline>'' = ''gho_abc''" "TrimSpace ''gho_abc'' = ''gho_abc''"
    by (simp_all add: TrimSpace_eval)
  show ?thesis
    by (simp add: resolveGitHubToken_def readStoredToken_def tryGhToken_def writeStoredToken_def
        osReadFile_def osMkdirAll_def osWriteFile_def execLookPath_def p e t TrimSpace_Nil
        tokenPath_Dir initState_def emit_def Let_def)
qed

lemma envWorld_run:
  "resolveGitHubToken envWorld (initState Map.empty) =
     (Returns (''ghp_abc'', None), initState Map.empty)"
  by (simp add: resolveGitHubToken_def envWorld_token)

lemma storedWorld_run:
  "resolveGitHubToken homeWorld (initState [tokenPath \<mapsto> '' ghs_old\<newline>'']) =
     (Returns (''ghs_old'', None),
      \<lparr>files = [tokenPath \<mapsto> '' ghs_old\<newline>''], ghRuns = 0, polls = 0,
       trace = [EvReadFile tokenPath]\<rparr>)"
proof -
  have e: "Getenv homeWorld = (\<lambda>key. [])"
    by (simp add: homeWorld_def bareWorld_def)
  have t: "TrimSpace '' ghs_old\<newline>'' = ''ghs_old''"
    by (simp add: TrimSpace_eval)
  show ?thesis
    by (simp add: resolveGitHubToken_def readStoredToken_def osReadFile_def homeWorld_path
        homeWorld_os e t TrimSpace_Nil initState_def emit_def)
qed

lemma specFlow_run:
  "resolveGitHubToken specFlow (initState Map.empty) =
     (Returns (''ghu_xyz'', None),
      \<lparr>files = [tokenPath \<mapsto> ''ghu_xyz\<newline>''], ghRuns = 0, polls = 3,
       trace =
         [EvReadFile tokenPath, EvLookPath ''gh'', EvLookPath ''gh'',
          EvHTTPPost ''https://github.com/login/device/code''
            [(''client_id'', ''Iv1.abc''), (''scope'', ''repo'')],
          EvPrint ''To authenticate with GitHub, open this link in your browser:\<newline>'',
          EvPrint ''  https://github.com/login/device\<newline>'',
          EvPrint ''and enter the code: ABCD-1234\<newline>'',
          EvNewTicker 5000000000, EvAfter 900000000000,
          EvHTTPPost ''https://github.com/login/oauth/access_token''
            [(''client_id'', ''Iv1.abc''), (''device_code'', ''D''),
             (''grant_type'', ''urn:ietf:params:oauth:grant-type:device_code'')],
          EvHTTPPost ''https://github.com/login/oauth/access_token''
            [(''client_id'', ''Iv1.abc''), (''device_code'', ''D''),
             (''grant_type'', ''urn:ietf:params:oauth:grant-type:device_code'')],
          EvHTTPPost ''https://github.com/login/oauth/access_token''
            [(''client_id'', ''Iv1.abc''), (''device_code'', ''D''),
             (''grant_type'', ''urn:ietf:params:oauth:grant-type:device_code'')],
          EvMkdirAll ''/home/u/.config/repoinit'',
          EvWriteFile tokenPath ''ghu_xyz\<newline>'']\<rparr>)"
proof -
  have p: "configTokenPath specFlow = (tokenPath, None)"
    by (simp add: configTokenPath_def specFlow_def flowWorld_def bareWorld_def filepathJoin_def
        tokenPath_def)
  have e: "Getenv specFlow = (\<lambda>key. if key = ''GITHUB_OAUTH_CLIENT_ID'' then ''Iv1.abc'' else [])"
    "ReadFileErr specFlow = (\<lambda>path. None)" "MkdirAllErr specFlow = (\<lambda>path. None)"
    "WriteFileErr specFlow = (\<lambda>path. None)"
    "LookPath specFlow = (\<lambda>file. Some (LibError ''executable file not found in $PATH''))"
    "deviceCodeEndpoint specFlow = Inr (jsonResponse [] specDeviceCode)"
    "tokenEndpoint specFlow =
       script [errorReply ''authorization_pending'', errorReply ''authorization_pending'',
               tokenReply ''ghu_xyz'']"
    "selects specFlow = [TickerC, TickerC, TickerC]"
    by (simp_all add: specFlow_def flowWorld_def bareWorld_def)
  have t: "TrimSpace ''Iv1.abc'' = ''Iv1.abc''" "TrimSpace ''ghu_xyz'' = ''ghu_xyz''"
    by (simp_all add: TrimSpace_eval)
  show ?thesis
    by (simp add: resolveGitHubToken_def resolveByDeviceFlow_def runDeviceFlow_def
        pollDeviceToken_def readStoredToken_def writeStoredToken_def tryGhToken_def
        tryGhWebLogin_def osReadFile_def osMkdirAll_def osWriteFile_def execLookPath_def
        p e t TrimSpace_Nil tokenPath_Dir jsonResponse_def errorReply_def tokenReply_def
        script_def specDeviceCode_def Second_def initState_def emit_def Let_def)
qed

theorem credential_invariant_witness:
  "credentialOK ''ghp_abc'' \<and> credentialOK ''ghs_old'' \<and> credentialOK ''gho_abc'' \<and>
   credentialOK ''ghu_xyz'' \<and>
   fst (resolveGitHubToken envWorld (initState Map.empty)) = Returns (''ghp_abc'', None) \<and>
   fst (resolveGitHubToken homeWorld (initState [tokenPath \<mapsto> '' ghs_old\<newline>''])) =
     Returns (''ghs_old'', None) \<and>
   fst (resolveGitHubToken ghWorld (initState Map.empty)) = Returns (''gho_abc'', None) \<and>
   files (snd (resolveGitHubToken ghWorld (initState Map.empty))) =
     [tokenPath \<mapsto> ''gho_abc\<newline>''] \<and>
   fst (resolveGitHubToken specFlow (initState Map.empty)) = Returns (''ghu_xyz'', None) \<and>
   files (snd (resolveGitHubToken specFlow (initState Map.empty))) =
     [tokenPath \<mapsto> ''ghu_xyz\<newline>'']"
proof -
  from credential_invariant [OF envWorld_run] have 1: "credentialOK ''ghp_abc''" by blast
  from credential_invariant [OF storedWorld_run] have 2: "credentialOK ''ghs_old''" by blast
  from credential_invariant [OF ghWorld_run] have 3: "credentialOK ''gho_abc''" by blast
  from credential_invariant [OF specFlow_run] have 4: "credentialOK ''ghu_xyz''" by blast
  from 1 2 3 4 show ?thesis
    by (simp add: envWorld_run storedWorld_run ghWorld_run specFlow_run)
qed

section \<open>The polling interval\<close>

lemma pollDeviceToken_tickers:
  "filter isTicker (trace (snd (pollDeviceToken w clientID deviceCode s))) =
   filter isTicker (trace s)"
  by (simp add: pollDeviceToken_trace)

lemma pollLoop_tickers:
  "filter isTicker (trace (snd (pollLoop w clientID deviceCode cs s))) =
   filter isTicker (trace s)"
proof (induction cs arbitrary: s)
  case Nil
  show ?case by simp
next
  case (Cons c cs)
  show ?case
  proof (cases c)
    case TickerC
    obtain token cont err s' where p: "pollDeviceToken w clientID deviceCode s = ((token, cont, err), s')"
      by (metis prod.collapse)
    then have "filter isTicker (trace s') = filter isTicker (trace s)"
      using pollDeviceToken_tickers [of w clientID deviceCode s] by simp
    with p TickerC Cons.IH [of s'] show ?thesis
      by (simp split: option.splits)
  qed simp_all
qed

lemma seconds_exact:
  fixes n :: "64 word"
  assumes "0 \<le> sint n" and "sint n \<le> 9223372036"
  shows "sint (n * Second) = sint n * 1000000000"
proof -
  have s: "sint Second = 1000000000" by (simp add: Second_def)
  have "sint (n * Second) = signed_take_bit 63 (sint n * 1000000000)"
    by (simp add: sint_word_ariths s)
  also have "\<dots> = sint n * 1000000000"
    using assms by (intro signed_take_bit_int_eq_self) simp_all
  finally show ?thesis .
qed

text \<open>
  In the range of \<open>time.Duration\<close> the loop polls at the interval of the server. After an
  initiation response that decodes, the flow creates one ticker and never another: the
  trace of the whole run, whatever the polls answer (\<open>slow_down\<close> too), has exactly one new
  ticker. Its period is 5 seconds when the interval of the response is absent (0) or not
  positive, and the interval of the response in whole seconds when that is positive and at
  most 9223372036, the largest number of seconds that a \<open>time.Duration\<close> holds.
\<close>

lemma ticker_interval:
  assumes "deviceCodeEndpoint w = Inr resp" and "200 \<le> StatusCode resp"
    and "StatusCode resp < 300" and "Decode resp = Inr dc"
    and "sint (Interval dc) \<le> 9223372036"
  shows "filter isTicker (trace (snd (runDeviceFlow w clientID scopes s))) =
           filter isTicker (trace s) @
             [EvNewTicker ((if sint (Interval dc) \<le> 0 then 5 else Interval dc) * Second)] \<and>
         sint ((if sint (Interval dc) \<le> 0 then 5 else Interval dc) * Second) =
           (if sint (Interval dc) \<le> 0 then 5 else sint (Interval dc)) * 1000000000"
proof -
  let ?p = "if sint (Interval dc) \<le> 0 then 5 else Interval dc"
  have "0 \<le> sint ?p" and "sint ?p \<le> 9223372036"
    using assms(5) by simp_all
  from seconds_exact [OF this]
  have e: "sint (?p * Second) = (if sint (Interval dc) \<le> 0 then 5 else sint (Interval dc)) * 1000000000"
    by simp
  then have pos: "\<not> sint (?p * Second) \<le> 0"
    by (simp split: if_splits)
  from assms(1-4) pos
  have "filter isTicker (trace (snd (runDeviceFlow w clientID scopes s))) =
           filter isTicker (trace s) @ [EvNewTicker (?p * Second)]"
    by (simp add: runDeviceFlow_def Let_def pollLoop_tickers)
  with e show ?thesis by simp
qed

lemma ticker_interval_example:
  "filter isTicker
     (trace (snd (runDeviceFlow slowDownFlow ''Iv1.abc'' [''repo''] (initState Map.empty)))) =
     [EvNewTicker 5000000000] \<and>
   fst (runDeviceFlow slowDownFlow ''Iv1.abc'' [''repo''] (initState Map.empty)) =
     Returns ([], Some DeviceCodeExpiredTryAgain) \<and>
   polls (snd (runDeviceFlow slowDownFlow ''Iv1.abc'' [''repo''] (initState Map.empty))) = 2"
proof -
  have 1: "deviceCodeEndpoint slowDownFlow = Inr (jsonResponse [] (specDeviceCode\<lparr>Interval := 0\<rparr>))"
    by (simp add: slowDownFlow_def flowWorld_def)
  have 2: "200 \<le> StatusCode (jsonResponse [] (specDeviceCode\<lparr>Interval := 0\<rparr>))"
    "StatusCode (jsonResponse [] (specDeviceCode\<lparr>Interval := 0\<rparr>)) < 300"
    "Decode (jsonResponse [] (specDeviceCode\<lparr>Interval := 0\<rparr>)) = Inr (specDeviceCode\<lparr>Interval := 0\<rparr>)"
    by (simp_all add: jsonResponse_def)
  have 3: "sint (Interval (specDeviceCode\<lparr>Interval := 0\<rparr>)) \<le> 9223372036"
    by simp
  from ticker_interval [OF 1 2 3, of "''Iv1.abc''" "[''repo'']" "initState Map.empty"]
  have t: "filter isTicker
     (trace (snd (runDeviceFlow slowDownFlow ''Iv1.abc'' [''repo''] (initState Map.empty)))) =
     [EvNewTicker 5000000000]"
    by (simp add: initState_def Second_def)
  have r: "fst (runDeviceFlow slowDownFlow ''Iv1.abc'' [''repo''] (initState Map.empty)) =
     Returns ([], Some DeviceCodeExpiredTryAgain) \<and>
   polls (snd (runDeviceFlow slowDownFlow ''Iv1.abc'' [''repo''] (initState Map.empty))) = 2"
    by (simp add: runDeviceFlow_def pollDeviceToken_def slowDownFlow_def flowWorld_def
        bareWorld_def jsonResponse_def errorReply_def script_def
        specDeviceCode_def Second_def initState_def emit_def Let_def)
  from t r show ?thesis by simp
qed

text \<open>
  C7. The polling interval is meant to be the interval of the server in whole seconds, 5
  seconds when that is absent or not positive, and fixed for the whole loop. The code
  misses it for a large interval: \<open>pollInterval * time.Second\<close> wraps around. For an interval
  of 18446744074 seconds the ticker has a period of 290448384 nanoseconds, and for an
  interval of 9223372037 seconds the product is negative and \<open>time.NewTicker\<close> panics.
\<close>

theorem ticker_interval_overflow:
  "0 < sint (Interval (specDeviceCode\<lparr>Interval := 18446744074\<rparr>)) \<and>
   filter isTicker
     (trace (snd (runDeviceFlow hugeInterval ''Iv1.abc'' [''repo''] (initState Map.empty)))) =
     [EvNewTicker 290448384] \<and>
   sint (290448384 :: 64 word) \<noteq>
     sint (Interval (specDeviceCode\<lparr>Interval := 18446744074\<rparr>)) * 1000000000 \<and>
   0 < sint (Interval (specDeviceCode\<lparr>Interval := 9223372037\<rparr>)) \<and>
   fst (runDeviceFlow negativePeriod ''Iv1.abc'' [''repo''] (initState Map.empty)) =
     Panics ''non-positive interval for NewTicker''"
  by (simp add: runDeviceFlow_def hugeInterval_def negativePeriod_def flowWorld_def bareWorld_def
      jsonResponse_def specDeviceCode_def Second_def initState_def emit_def Let_def)

section \<open>A write to the store that fails\<close>









lemma resolveGitHubToken_chain:
  assumes "readStoredToken w s = ((t1, e1), s1)" and "tryGhToken w s1 = ((t2, e2), s2)"
    and "tryGhWebLogin w s2 = (e3, s3)" and "tryGhToken w s3 = ((t4, e4), s4)"
  shows "resolveGitHubToken w s =
     (if TrimSpace (Getenv w ''GITHUB_TOKEN'') \<noteq> []
      then (Returns (TrimSpace (Getenv w ''GITHUB_TOKEN''), None), s)
      else if t1 \<noteq> [] then (Returns (t1, None), s1)
      else if e2 = None \<and> t2 \<noteq> [] then (Returns (t2, None), snd (writeStoredToken w t2 s2))
      else if e3 \<noteq> None then resolveByDeviceFlow w s3
      else if e4 = None \<and> t4 \<noteq> [] then (Returns (t4, None), snd (writeStoredToken w t4 s4))
      else resolveByDeviceFlow w s4)"
  using assms by (cases e3) (simp_all add: resolveGitHubToken_def Let_def)





section \<open>The errors that the resolver returns\<close>

lemma sublist_eval: "sublist [] ys" "\<not> sublist (x # xs) []"
  "sublist (x # xs) (y # ys) \<longleftrightarrow> prefix (x # xs) (y # ys) \<or> sublist (x # xs) ys"
  by (simp_all add: sublist_Cons_right)

lemma NoTokenFound_remedies: "namesEveryRemedy (errorString NoTokenFound)"
  by (simp add: namesEveryRemedy_def sublist_eval)

lemma resolveByDeviceFlow_error:
  assumes "resolveByDeviceFlow w s = (Returns (token, Some err), s')"
  shows "token = [] \<and>
     (if TrimSpace (Getenv w ''GITHUB_OAUTH_CLIENT_ID'') = [] then err = NoTokenFound
      else runDeviceFlow w (TrimSpace (Getenv w ''GITHUB_OAUTH_CLIENT_ID'')) [''repo''] s =
             (Returns ([], Some err), s'))"
proof (cases "TrimSpace (Getenv w ''GITHUB_OAUTH_CLIENT_ID'') = []")
  case True
  with assms show ?thesis by (auto simp: resolveByDeviceFlow_def)
next
  case False
  let ?c = "TrimSpace (Getenv w ''GITHUB_OAUTH_CLIENT_ID'')"
  obtain r1 s1 where f: "runDeviceFlow w ?c [''repo''] s = (r1, s1)"
    by (metis prod.collapse)
  show ?thesis
  proof (cases r1)
    case (Returns p)
    obtain t e where p: "p = (t, e)" by (cases p)
    note tok = runDeviceFlow_token [OF f [unfolded Returns p]]
    show ?thesis
    proof (cases e)
      case (Some a)
      with tok have "t = []" by simp
      with assms False f Returns p Some show ?thesis
        by (auto simp: resolveByDeviceFlow_def)
    next
      case None
      with tok have "t \<noteq> []" by (simp add: credentialOK_def)
      with assms False f Returns p None show ?thesis
        by (auto simp: resolveByDeviceFlow_def)
    qed
  next
    case (Panics m)
    with assms False f show ?thesis by (auto simp: resolveByDeviceFlow_def)
  next
    case Blocks
    with assms False f show ?thesis by (auto simp: resolveByDeviceFlow_def)
  qed
qed

lemma tryGhToken_error:
  assumes "tryGhToken w s = ((token, err), s')"
  shows "token = [] \<longleftrightarrow> err \<noteq> None"
proof (cases "LookPath w ''gh''")
  case (Some a)
  have "tryGhToken w s = (([], Some a), emit (EvLookPath ''gh'') s)"
    by (simp add: tryGhToken_def execLookPath_def Some)
  with assms have "token = []" and "err = Some a" by simp_all
  then show ?thesis by simp
next
  case None
  with assms show ?thesis
    by (auto simp: tryGhToken_def execLookPath_def Let_def split: sum.splits if_splits)
qed

lemma resolveByDeviceFlow_surfaces:
  "(TrimSpace (Getenv w ''GITHUB_OAUTH_CLIENT_ID'') = [] \<longrightarrow>
      resolveByDeviceFlow w s = (Returns ([], Some NoTokenFound), s)) \<and>
   (\<forall>t err s'. TrimSpace (Getenv w ''GITHUB_OAUTH_CLIENT_ID'') \<noteq> [] \<and>
      runDeviceFlow w (TrimSpace (Getenv w ''GITHUB_OAUTH_CLIENT_ID'')) [''repo''] s =
        (Returns (t, Some err), s') \<longrightarrow>
      resolveByDeviceFlow w s = (Returns ([], Some err), s'))"
  by (simp add: resolveByDeviceFlow_def)

text \<open>
  C3, as the code has it. Let the stored-token read, the CLI token query, the CLI login and
  the second CLI query run one after the other, each from the state that the one before
  left, and let \<open>e1\<close>, \<open>e2\<close>, \<open>e3\<close>, \<open>e4\<close> be whatever errors they return. When the environment
  credential is blank and none of them gives a token, those errors are dropped and the
  resolver goes on to the last step, from the state after the login (when the login failed)
  or after the second query: with no OAuth client identifier configured it returns the
  error "no token found ..."; with one configured, every error that the device flow returns
  from that state is returned by the resolver as it is, with the state the flow left and
  with nothing added to it. Conversely, an error is returned only so: no step before gave a
  token, and the error is "no token found ..." (no client identifier) or the error of the
  device flow run from that state. The text of "no token found ..." names the environment
  variable, the companion CLI and the OAuth client identifier.
\<close>

theorem resolve_failure_surface:
  assumes "readStoredToken w s = ((t1, e1), s1)" and "tryGhToken w s1 = ((t2, e2), s2)"
    and "tryGhWebLogin w s2 = (e3, s3)" and "tryGhToken w s3 = ((t4, e4), s4)"
  shows
    "(TrimSpace (Getenv w ''GITHUB_TOKEN'') = [] \<and> t1 = [] \<and> t2 = [] \<and>
      (e3 = None \<longrightarrow> t4 = []) \<longrightarrow>
        (TrimSpace (Getenv w ''GITHUB_OAUTH_CLIENT_ID'') = [] \<longrightarrow>
           resolveGitHubToken w s =
             (Returns ([], Some NoTokenFound), if e3 = None then s4 else s3)) \<and>
        (\<forall>t err s'. TrimSpace (Getenv w ''GITHUB_OAUTH_CLIENT_ID'') \<noteq> [] \<and>
           runDeviceFlow w (TrimSpace (Getenv w ''GITHUB_OAUTH_CLIENT_ID'')) [''repo'']
             (if e3 = None then s4 else s3) = (Returns (t, Some err), s') \<longrightarrow>
           resolveGitHubToken w s = (Returns ([], Some err), s'))) \<and>
     (\<forall>token err s'. resolveGitHubToken w s = (Returns (token, Some err), s') \<longrightarrow>
        token = [] \<and> TrimSpace (Getenv w ''GITHUB_TOKEN'') = [] \<and> t1 = [] \<and> t2 = [] \<and>
        (e3 = None \<longrightarrow> t4 = []) \<and>
        (if TrimSpace (Getenv w ''GITHUB_OAUTH_CLIENT_ID'') = []
         then err = NoTokenFound \<and> s' = (if e3 = None then s4 else s3)
         else runDeviceFlow w (TrimSpace (Getenv w ''GITHUB_OAUTH_CLIENT_ID'')) [''repo'']
                (if e3 = None then s4 else s3) = (Returns ([], Some err), s'))) \<and>
     namesEveryRemedy (errorString NoTokenFound)"
proof -
  let ?c = "TrimSpace (Getenv w ''GITHUB_OAUTH_CLIENT_ID'')"
  let ?sF = "if e3 = None then s4 else s3"
  note a = resolveGitHubToken_chain [OF assms]
  note e2 = tryGhToken_error [OF assms(2)]
  note e4 = tryGhToken_error [OF assms(4)]
  have fall: "resolveGitHubToken w s = resolveByDeviceFlow w ?sF"
    if "TrimSpace (Getenv w ''GITHUB_TOKEN'') = []" "t1 = []" "t2 = []" "e3 = None \<longrightarrow> t4 = []"
    unfolding a using that by simp
  have 1: "TrimSpace (Getenv w ''GITHUB_TOKEN'') = [] \<and> t1 = [] \<and> t2 = [] \<and>
      (e3 = None \<longrightarrow> t4 = []) \<longrightarrow>
        (?c = [] \<longrightarrow> resolveGitHubToken w s = (Returns ([], Some NoTokenFound), ?sF)) \<and>
        (\<forall>t err s'. ?c \<noteq> [] \<and>
           runDeviceFlow w ?c [''repo''] ?sF = (Returns (t, Some err), s') \<longrightarrow>
           resolveGitHubToken w s = (Returns ([], Some err), s'))"
  proof
    assume "TrimSpace (Getenv w ''GITHUB_TOKEN'') = [] \<and> t1 = [] \<and> t2 = [] \<and>
      (e3 = None \<longrightarrow> t4 = [])"
    then have "resolveGitHubToken w s = resolveByDeviceFlow w ?sF"
      by (intro fall) simp_all
    then show "(?c = [] \<longrightarrow> resolveGitHubToken w s = (Returns ([], Some NoTokenFound), ?sF)) \<and>
        (\<forall>t err s'. ?c \<noteq> [] \<and>
           runDeviceFlow w ?c [''repo''] ?sF = (Returns (t, Some err), s') \<longrightarrow>
           resolveGitHubToken w s = (Returns ([], Some err), s'))"
      using resolveByDeviceFlow_surfaces [of w ?sF] by simp
  qed
  have 2: "\<forall>token err s'. resolveGitHubToken w s = (Returns (token, Some err), s') \<longrightarrow>
        token = [] \<and> TrimSpace (Getenv w ''GITHUB_TOKEN'') = [] \<and> t1 = [] \<and> t2 = [] \<and>
        (e3 = None \<longrightarrow> t4 = []) \<and>
        (if ?c = [] then err = NoTokenFound \<and> s' = ?sF
         else runDeviceFlow w ?c [''repo''] ?sF = (Returns ([], Some err), s'))"
  proof (intro allI impI)
    fix token err s'
    assume r: "resolveGitHubToken w s = (Returns (token, Some err), s')"
    from r [unfolded a] e2 e4
    have h: "TrimSpace (Getenv w ''GITHUB_TOKEN'') = []" "t1 = []" "t2 = []"
      "e3 = None \<longrightarrow> t4 = []"
      by (auto split: if_splits)
    from r have d: "resolveByDeviceFlow w ?sF = (Returns (token, Some err), s')"
      unfolding fall [OF h] .
    from resolveByDeviceFlow_error [OF d] have t: "token = []" by simp
    have "if ?c = [] then err = NoTokenFound \<and> s' = ?sF
         else runDeviceFlow w ?c [''repo''] ?sF = (Returns ([], Some err), s')"
    proof (cases "?c = []")
      case True
      with d show ?thesis by (simp add: resolveByDeviceFlow_def)
    next
      case False
      with resolveByDeviceFlow_error [OF d] show ?thesis by simp
    qed
    with h t show "token = [] \<and> TrimSpace (Getenv w ''GITHUB_TOKEN'') = [] \<and> t1 = [] \<and>
        t2 = [] \<and> (e3 = None \<longrightarrow> t4 = []) \<and>
        (if ?c = [] then err = NoTokenFound \<and> s' = ?sF
         else runDeviceFlow w ?c [''repo''] ?sF = (Returns ([], Some err), s'))"
      by (intro conjI)
  qed
  show ?thesis
    by (rule conjI [OF 1 conjI [OF 2 NoTokenFound_remedies]])
qed

lemma bareWorld_steps:
  "readStoredToken bareWorld (initState Map.empty) =
     (([], Some (LibError ''neither $XDG_CONFIG_HOME nor $HOME are defined'')),
      initState Map.empty)"
  "tryGhToken bareWorld st =
     (([], Some (LibError ''executable file not found in $PATH'')), emit (EvLookPath ''gh'') st)"
  "tryGhWebLogin bareWorld st =
     (Some (LibError ''executable file not found in $PATH''), emit (EvLookPath ''gh'') st)"
  by (simp_all add: readStoredToken_def configTokenPath_def tryGhToken_def tryGhWebLogin_def
      execLookPath_def bareWorld_def)

lemma deniedFlow_steps:
  "readStoredToken deniedFlow (initState Map.empty) =
     (([], Some (LibError ''neither $XDG_CONFIG_HOME nor $HOME are defined'')),
      initState Map.empty)"
  "tryGhToken deniedFlow st =
     (([], Some (LibError ''executable file not found in $PATH'')), emit (EvLookPath ''gh'') st)"
  "tryGhWebLogin deniedFlow st =
     (Some (LibError ''executable file not found in $PATH''), emit (EvLookPath ''gh'') st)"
  by (simp_all add: readStoredToken_def configTokenPath_def tryGhToken_def tryGhWebLogin_def
      execLookPath_def deniedFlow_def flowWorld_def bareWorld_def)

lemma deniedFlow_flow:
  "fst (runDeviceFlow deniedFlow ''Iv1.abc'' [''repo'']
          (emit (EvLookPath ''gh'') (emit (EvLookPath ''gh'') (initState Map.empty)))) =
     Returns ([], Some AccessDeniedByUser)"
  by (simp add: runDeviceFlow_def pollDeviceToken_def deniedFlow_def flowWorld_def bareWorld_def
      jsonResponse_def errorReply_def script_def specDeviceCode_def Second_def initState_def
      emit_def Let_def)

theorem resolve_failure_surface_witness:
  "resolveGitHubToken bareWorld (initState Map.empty) =
     (Returns ([], Some NoTokenFound),
      emit (EvLookPath ''gh'') (emit (EvLookPath ''gh'') (initState Map.empty))) \<and>
   resolveGitHubToken deniedFlow (initState Map.empty) =
     (Returns ([], Some AccessDeniedByUser),
      snd (runDeviceFlow deniedFlow ''Iv1.abc'' [''repo'']
             (emit (EvLookPath ''gh'') (emit (EvLookPath ''gh'') (initState Map.empty))))) \<and>
   namesEveryRemedy (errorString NoTokenFound)"
proof -
  let ?s0 = "initState Map.empty"
  let ?s2 = "emit (EvLookPath ''gh'') ?s0"
  let ?s3 = "emit (EvLookPath ''gh'') ?s2"
  let ?s4 = "emit (EvLookPath ''gh'') ?s3"
  let ?e = "Some (LibError ''executable file not found in $PATH'')"
  have b: "TrimSpace (Getenv bareWorld ''GITHUB_TOKEN'') = []"
    "TrimSpace (Getenv bareWorld ''GITHUB_OAUTH_CLIENT_ID'') = []"
    by (simp_all add: bareWorld_def TrimSpace_Nil)
  note tb = resolve_failure_surface [OF bareWorld_steps(1) bareWorld_steps(2) [of ?s0]
      bareWorld_steps(3) [of ?s2] bareWorld_steps(2) [of ?s3]]
  from tb have nr: "namesEveryRemedy (errorString NoTokenFound)" by blast
  from tb b have "resolveGitHubToken bareWorld ?s0 =
      (Returns ([], Some NoTokenFound), if ?e = None then ?s4 else ?s3)"
    by blast
  then have 1: "resolveGitHubToken bareWorld ?s0 = (Returns ([], Some NoTokenFound), ?s3)"
    by simp
  have d: "TrimSpace (Getenv deniedFlow ''GITHUB_TOKEN'') = []"
    "TrimSpace (Getenv deniedFlow ''GITHUB_OAUTH_CLIENT_ID'') = ''Iv1.abc''"
    by (simp_all add: deniedFlow_def flowWorld_def bareWorld_def TrimSpace_Nil TrimSpace_eval)
  let ?sf = "snd (runDeviceFlow deniedFlow ''Iv1.abc'' [''repo''] ?s3)"
  have f: "runDeviceFlow deniedFlow ''Iv1.abc'' [''repo''] (if ?e = None then ?s4 else ?s3) =
     (Returns ([], Some AccessDeniedByUser), ?sf)"
    using deniedFlow_flow by (simp add: prod_eq_iff)
  note td = resolve_failure_surface [OF deniedFlow_steps(1) deniedFlow_steps(2) [of ?s0]
      deniedFlow_steps(3) [of ?s2] deniedFlow_steps(2) [of ?s3], unfolded d]
  have ne: "''Iv1.abc'' \<noteq> []" by simp
  from td ne f have 2: "resolveGitHubToken deniedFlow ?s0 =
     (Returns ([], Some AccessDeniedByUser), ?sf)"
    by blast
  from 1 2 nr show ?thesis by (intro conjI)
qed

text \<open>
  C3 as stated fails where it says that the error of the device flow comes with remediation
  guidance: when the user declines, the resolver returns "access denied by user" and has
  printed the sign-in instructions only.
\<close>

theorem device_flow_error_counterexample:
  "fst (resolveGitHubToken deniedFlow (initState Map.empty)) =
     Returns ([], Some AccessDeniedByUser) \<and>
   errorString AccessDeniedByUser = ''access denied by user'' \<and>
   \<not> namesEveryRemedy (errorString AccessDeniedByUser) \<and>
   filter isOutput (trace (snd (resolveGitHubToken deniedFlow (initState Map.empty)))) =
     [EvPrint ''To authenticate with GitHub, open this link in your browser:\<newline>'',
      EvPrint ''  https://github.com/login/device\<newline>'',
      EvPrint ''and enter the code: ABCD-1234\<newline>'']"
proof -
  have e: "Getenv deniedFlow = (\<lambda>key. if key = ''GITHUB_OAUTH_CLIENT_ID'' then ''Iv1.abc'' else [])"
    "LookPath deniedFlow = (\<lambda>file. Some (LibError ''executable file not found in $PATH''))"
    "UserConfigDir deniedFlow = Inl (LibError ''neither $XDG_CONFIG_HOME nor $HOME are defined'')"
    "deviceCodeEndpoint deniedFlow = Inr (jsonResponse [] specDeviceCode)"
    "tokenEndpoint deniedFlow = script [errorReply ''access_denied'']"
    "selects deniedFlow = [TickerC]"
    by (simp_all add: deniedFlow_def flowWorld_def bareWorld_def)
  have t: "TrimSpace ''Iv1.abc'' = ''Iv1.abc''"
    by (simp add: TrimSpace_eval)
  have r: "resolveGitHubToken deniedFlow (initState Map.empty) =
     resolveByDeviceFlow deniedFlow
       (snd (tryGhWebLogin deniedFlow (snd (tryGhToken deniedFlow
          (snd (readStoredToken deniedFlow (initState Map.empty)))))))"
    by (simp add: resolveGitHubToken_def readStoredToken_def configTokenPath_def tryGhToken_def
        tryGhWebLogin_def execLookPath_def e TrimSpace_Nil)
  have n: "\<not> namesEveryRemedy ''access denied by user''"
    by (simp add: namesEveryRemedy_def sublist_eval)
  show ?thesis
    unfolding r
    by (simp add: n resolveByDeviceFlow_def runDeviceFlow_def pollDeviceToken_def
        readStoredToken_def configTokenPath_def tryGhToken_def tryGhWebLogin_def execLookPath_def
        e t TrimSpace_Nil jsonResponse_def errorReply_def script_def specDeviceCode_def
        Second_def initState_def emit_def Let_def)
qed

end
